theory Spec2Isabelle
  imports Complex_Main "HOL-Library.Sublist"
begin

section \<open>The governance schema (schema/governance.ts)\<close>

text \<open>
  The canonical model is the value produced by the schema parse. An optional field
  (\<^verbatim>\<open>.optional()\<close>) is an \<open>option\<close>; \<^verbatim>\<open>z.record\<close> is a partial map; a
  \<^verbatim>\<open>z.enum\<close> is a datatype; \<^verbatim>\<open>z.number()\<close> is a rational: the schema refuses NaN,
  every finite double is a rational, and the projectors only test a number against zero
  (the two infinities, which the schema lets through, are not zero either and are left
  out). Field names follow the schema; where two objects of the schema share a field
  name the later one carries a prefix.
\<close>

text \<open>\<^verbatim>\<open>z.any()\<close> and the tree returned by the YAML loader.\<close>

datatype json =
    JNull
  | JBool bool
  | JNum rat
  | JStr string
  | JArr "json list"
  | JObj "(string \<times> json) list"

record PermissionRule =
  path :: "string option"
  pattern :: "string option"
  reason :: "string option"

text \<open>
  \<^verbatim>\<open>FilesystemPermissionsSchema\<close> and \<^verbatim>\<open>CommandPermissionsSchema\<close> have the same three
  optional lists; so has the \<^verbatim>\<open>permissions\<close> object of the generated settings, with
  strings for rules.
\<close>

record 'a PermissionLists =
  deny :: "'a list option"
  ask :: "'a list option"
  allow :: "'a list option"

type_synonym FilesystemPermissions = "PermissionRule PermissionLists"
type_synonym CommandPermissions = "PermissionRule PermissionLists"

record NetworkPermissions =
  allowed_domains :: "string list option"
  blocked_domains :: "string list option"

record Permissions =
  filesystem :: "FilesystemPermissions option"
  commands :: "CommandPermissions option"
  network :: "NetworkPermissions option"

record SecretPattern =
  secret_pattern :: string
  secret_name :: "string option"

record SecretsDetection =
  patterns :: "SecretPattern list option"

record SecretsEnforcement =
  secrets_hook :: "string option"
  secrets_action :: "string option"
  secrets_message :: "string option"

record Secrets =
  policy :: "string option"
  allowed_sources :: "string list option"
  detection :: "SecretsDetection option"
  enforcement :: "SecretsEnforcement option"

datatype ActionType = command | prompt | agent

record ApprovalGateAction =
  action_type :: ActionType
  action_command :: "string option"
  action_prompt :: "string option"
  action_timeout :: "rat option"

record ApprovalGateTrigger =
  tool :: "string option"
  path_pattern :: "string option"
  command_pattern :: "string option"

record ApprovalGate =
  gate_name :: string
  trigger :: ApprovalGateTrigger
  action :: ApprovalGateAction

record AuditDestination =
  destination_type :: string
  destination_path :: "string option"
  bucket :: "string option"
  prefix_field :: "string option"
  profile :: "string option"
  endpoint :: "string option"
  headers :: "(string \<rightharpoonup> string) option"

record Audit =
  audit_enabled :: "bool option"
  events :: "string list option"
  destinations :: "AuditDestination list option"
  required_fields :: "string list option"
  retention :: "string option"

datatype SandboxMode = auto_allow | regular

record SandboxFilesystem =
  allowed_paths :: "string list option"
  blocked_paths :: "string list option"

record SandboxNetwork =
  inherit_from :: "string option"

record Sandbox =
  enabled :: "bool option"
  mode :: "SandboxMode option"
  sandbox_filesystem :: "SandboxFilesystem option"
  sandbox_network :: "SandboxNetwork option"
  excluded_commands :: "string list option"

record ComplianceControl =
  control_id :: string
  control_description :: string
  satisfied_by :: "string list"

record ComplianceFramework =
  framework_name :: string
  controls :: "ComplianceControl list"

record Compliance =
  frameworks :: "ComplianceFramework list option"

record Role =
  members :: "string list option"
  restrictions :: "string list option"
  additional_gates :: "ApprovalGate list option"
  behavior :: "string list option"

record ProtectedBranch =
  branch_name :: string
  requires :: "string \<rightharpoonup> json"

record Branches =
  protected :: "ProtectedBranch list option"

record DeploymentStep =
  environment :: string
  branch :: string
  auto_deploy :: "bool option"
  gates :: "string list option"

record Deployment =
  sequence :: "DeploymentStep list option"

record Dynamodb =
  billing_mode :: string
  dynamodb_enforcement :: string
  dynamodb_reason :: "string option"

record Git =
  no_claude_attribution :: "bool option"
  git_reason :: "string option"

record Operational =
  branches :: "Branches option"
  deployment :: "Deployment option"
  dynamodb :: "Dynamodb option"
  git :: "Git option"

record RequiredTest =
  test_name :: string
  test_command :: string
  directories :: "string list option"

record TestingEnforcement =
  testing_hook :: string
  testing_action :: string
  testing_prompt :: "string option"

record Testing =
  required_before_commit :: "RequiredTest list option"
  required_before_merge :: "RequiredTest list option"
  testing_enforcement :: "TestingEnforcement option"

record CostControl =
  resource :: "string option"
  cost_policy :: "string option"
  alert_threshold :: "string option"
  cost_action :: "string option"
  cost_enforcement :: "string option"

record GovernanceConfig =
  version :: string
  project :: string
  description :: "string option"
  data_classification :: "(string \<rightharpoonup> string list) option"
  permissions :: "Permissions option"
  secrets :: "Secrets option"
  approval_gates :: "ApprovalGate list option"
  operational :: "Operational option"
  testing :: "Testing option"
  roles :: "(string \<rightharpoonup> Role) option"
  audit :: "Audit option"
  sandbox :: "Sandbox option"
  compliance :: "Compliance option"
  cost_controls :: "(string \<rightharpoonup> CostControl list) option"

section \<open>JavaScript values and exceptions\<close>

text \<open>
  A thrown \<^verbatim>\<open>Error(message)\<close> is \<open>Inl message\<close>; a normal return is \<open>Inr\<close>.
\<close>

definition and_then :: "string + 'a \<Rightarrow> ('a \<Rightarrow> string + 'b) \<Rightarrow> string + 'b" where
  "and_then r f = (case r of Inl e \<Rightarrow> Inl e | Inr x \<Rightarrow> f x)"

text \<open>
  \<^verbatim>\<open>xs.map(f)\<close> where \<^verbatim>\<open>f\<close> may throw: elements are visited left to right and the
  first exception leaves the loop.
\<close>

primrec map_result :: "('a \<Rightarrow> string + 'b) \<Rightarrow> 'a list \<Rightarrow> string + 'b list" where
  "map_result f [] = Inr []"
| "map_result f (x # xs) =
     (case f x of
        Inl e \<Rightarrow> Inl e
      | Inr y \<Rightarrow> (case map_result f xs of Inl e \<Rightarrow> Inl e | Inr ys \<Rightarrow> Inr (y # ys)))"

text \<open>
  Truthiness of an optional string: \<^verbatim>\<open>undefined\<close> and the empty string are falsy.
  \<open>truthy_string\<close> returns the string when the test \<^verbatim>\<open>if (s)\<close> passes.
\<close>

definition truthy_string :: "string option \<Rightarrow> string option" where
  "truthy_string s = (case s of None \<Rightarrow> None | Some v \<Rightarrow> if v = [] then None else Some v)"

text \<open>Truthiness of an optional number: \<^verbatim>\<open>undefined\<close> and zero are falsy.\<close>

definition truthy_number :: "rat option \<Rightarrow> rat option" where
  "truthy_number n = (case n of None \<Rightarrow> None | Some v \<Rightarrow> if v = 0 then None else Some v)"

text \<open>\<^verbatim>\<open>xs || []\<close> on an optional array (an array, even empty, is truthy).\<close>

definition or_empty :: "'a list option \<Rightarrow> 'a list" where
  "or_empty xs = (case xs of None \<Rightarrow> [] | Some ys \<Rightarrow> ys)"

text \<open>\<^verbatim>\<open>lines.join(sep)\<close>.\<close>

fun join :: "string \<Rightarrow> string list \<Rightarrow> string" where
  "join sep [] = []"
| "join sep [x] = x"
| "join sep (x # y # ys) = x @ sep @ join sep (y # ys)"

section \<open>The settings generator (generators/settings.ts)\<close>

record ClaudeSandbox =
  settings_enabled :: "bool option"
  settings_mode :: "string option"
  allowedDomains :: "string list option"
  blockedDomains :: "string list option"
  allowedPaths :: "string list option"
  blockedPaths :: "string list option"
  excludedCommands :: "string list option"

text \<open>One entry of \<^verbatim>\<open>hooks[event]\<close>: \<^verbatim>\<open>{ matcher, hooks: [hookConfig] }\<close>.\<close>

record HookConfig =
  hook_type :: ActionType
  hook_command :: "string option"
  hook_prompt :: "string option"
  hook_timeout :: "rat option"

record HookBinding =
  matcher :: string
  hooks :: "HookConfig list"

text \<open>\<^verbatim>\<open>Record<string, any[]>\<close>, its keys in insertion order.\<close>

type_synonym HooksRecord = "(string \<times> HookBinding list) list"

record ClaudeSettings =
  settings_permissions :: "string PermissionLists option"
  settings_sandbox :: "ClaudeSandbox option"
  settings_hooks :: "HooksRecord option"
  defaultMode :: "string option"

definition formatFilePermission :: "PermissionRule \<Rightarrow> string \<Rightarrow> string + string" where
  "formatFilePermission rule tools =
     (case truthy_string (path rule) of
        None \<Rightarrow> Inl ''Filesystem permission rule must have a path''
      | Some p \<Rightarrow>
          if CHR ''*'' \<in> set p then Inr (tools @ ''('' @ p @ '')'')
          else Inr (tools @ ''('' @ p @ '')''))"

definition formatBashPermission :: "PermissionRule \<Rightarrow> string + string" where
  "formatBashPermission rule =
     (case truthy_string (pattern rule) of
        None \<Rightarrow> Inl ''Command permission rule must have a pattern''
      | Some p \<Rightarrow> Inr (''Bash('' @ p @ '')''))"

text \<open>
  One of the six blocks of \<^verbatim>\<open>generatePermissions\<close>:
  \<^verbatim>\<open>if (rules && rules.length > 0) { cur = cur || []; cur.push(...rules.map(fmt)); }\<close>
\<close>

definition push_rules ::
  "(PermissionRule \<Rightarrow> string + string) \<Rightarrow> PermissionRule list option \<Rightarrow>
   string list option \<Rightarrow> string + string list option" where
  "push_rules fmt rules cur =
     (case rules of
        None \<Rightarrow> Inr cur
      | Some rs \<Rightarrow>
          if length rs > 0
          then and_then (map_result fmt rs) (\<lambda>ss. Inr (Some (or_empty cur @ ss)))
          else Inr cur)"

text \<open>The three blocks of one scope, in the order deny, ask, allow.\<close>

definition push_scope ::
  "(PermissionRule \<Rightarrow> string + string) \<Rightarrow> PermissionRule PermissionLists option \<Rightarrow>
   string PermissionLists \<Rightarrow> string + string PermissionLists" where
  "push_scope fmt scope perms =
     (case scope of
        None \<Rightarrow> Inr perms
      | Some s \<Rightarrow>
          and_then (push_rules fmt (deny s) (deny perms)) (\<lambda>d.
          and_then (push_rules fmt (ask s) (ask perms)) (\<lambda>a.
          and_then (push_rules fmt (allow s) (allow perms)) (\<lambda>l.
          Inr (perms\<lparr>deny := d, ask := a, allow := l\<rparr>)))))"

definition generatePermissions :: "GovernanceConfig \<Rightarrow> string + string PermissionLists" where
  "generatePermissions config =
     and_then
       (push_scope (\<lambda>r. formatFilePermission r ''Read|Write|Edit'')
          (Option.bind (permissions config) filesystem)
          \<lparr>deny = None, ask = None, allow = None\<rparr>)
       (push_scope formatBashPermission (Option.bind (permissions config) commands))"

fun mode_string :: "SandboxMode \<Rightarrow> string" where
  "mode_string auto_allow = ''auto-allow''"
| "mode_string regular = ''regular''"

definition generateSandbox :: "GovernanceConfig \<Rightarrow> ClaudeSandbox" where
  "generateSandbox config =
     (let sb0 = \<lparr>settings_enabled = Some True, settings_mode = None, allowedDomains = None,
                 blockedDomains = None, allowedPaths = None, blockedPaths = None,
                 excludedCommands = None\<rparr>
      in case sandbox config of
           None \<Rightarrow> sb0
         | Some sc \<Rightarrow>
             (let sb1 = (case mode sc of
                           None \<Rightarrow> sb0
                         | Some m \<Rightarrow> sb0\<lparr>settings_mode := Some (mode_string m)\<rparr>);
                  sb2 = (case Option.bind (permissions config) network of
                           None \<Rightarrow> sb1
                         | Some net \<Rightarrow>
                             (let a = (case allowed_domains net of
                                         None \<Rightarrow> sb1
                                       | Some ds \<Rightarrow> sb1\<lparr>allowedDomains := Some ds\<rparr>)
                              in case blocked_domains net of
                                   None \<Rightarrow> a
                                 | Some ds \<Rightarrow> a\<lparr>blockedDomains := Some ds\<rparr>));
                  sb3 = (case sandbox_filesystem sc of
                           None \<Rightarrow> sb2
                         | Some fs \<Rightarrow>
                             (let a = (case allowed_paths fs of
                                         None \<Rightarrow> sb2
                                       | Some ps \<Rightarrow> sb2\<lparr>allowedPaths := Some ps\<rparr>)
                              in case blocked_paths fs of
                                   None \<Rightarrow> a
                                 | Some ps \<Rightarrow> a\<lparr>blockedPaths := Some ps\<rparr>))
              in case excluded_commands sc of
                   None \<Rightarrow> sb3
                 | Some cs \<Rightarrow> sb3\<lparr>excludedCommands := Some cs\<rparr>))"

text \<open>
  The event of a gate. The variable starts as \<^verbatim>\<open>'PreToolUse'\<close> and both branches of
  the source assign the same string again.
\<close>

definition hookEvent :: "ApprovalGate \<Rightarrow> string" where
  "hookEvent gate =
     (case truthy_string (command_pattern (trigger gate)) of
        Some _ \<Rightarrow> ''PreToolUse''
      | None \<Rightarrow>
          (case truthy_string (path_pattern (trigger gate)) of
             Some _ \<Rightarrow> ''PreToolUse''
           | None \<Rightarrow> ''PreToolUse''))"

definition gate_matcher :: "ApprovalGate \<Rightarrow> string" where
  "gate_matcher gate =
     (case truthy_string (tool (trigger gate)) of
        Some t \<Rightarrow> t
      | None \<Rightarrow>
          (case truthy_string (command_pattern (trigger gate)) of
             Some _ \<Rightarrow> ''Bash''
           | None \<Rightarrow>
               (case truthy_string (path_pattern (trigger gate)) of
                  Some _ \<Rightarrow> ''Edit|Write''
                | None \<Rightarrow> [])))"

definition hookConfig :: "ApprovalGate \<Rightarrow> HookConfig" where
  "hookConfig gate =
     \<lparr>hook_type = action_type (action gate),
      hook_command = truthy_string (action_command (action gate)),
      hook_prompt = truthy_string (action_prompt (action gate)),
      hook_timeout = truthy_number (action_timeout (action gate))\<rparr>"

text \<open>\<^verbatim>\<open>if (!rec[k]) rec[k] = []; rec[k].push(v)\<close>\<close>

fun record_push :: "string \<Rightarrow> 'a \<Rightarrow> (string \<times> 'a list) list \<Rightarrow> (string \<times> 'a list) list" where
  "record_push k v [] = [(k, [v])]"
| "record_push k v ((k', vs) # rest) =
     (if k' = k then (k', vs @ [v]) # rest else (k', vs) # record_push k v rest)"

definition gate_binding :: "ApprovalGate \<Rightarrow> HookBinding" where
  "gate_binding gate = \<lparr>matcher = gate_matcher gate, hooks = [hookConfig gate]\<rparr>"

definition generateHooksConfig :: "GovernanceConfig \<Rightarrow> HooksRecord" where
  "generateHooksConfig config =
     (case approval_gates config of
        None \<Rightarrow> []
      | Some gs \<Rightarrow>
          if length gs = 0 then []
          else fold (\<lambda>gate hs. record_push (hookEvent gate) (gate_binding gate) hs) gs [])"

definition SettingsGenerator_generate :: "GovernanceConfig \<Rightarrow> string + ClaudeSettings" where
  "SettingsGenerator_generate config =
     and_then
       (case permissions config of
          None \<Rightarrow> Inr None
        | Some _ \<Rightarrow> and_then (generatePermissions config) (\<lambda>p. Inr (Some p)))
       (\<lambda>perms.
          let sb = (case Option.bind (sandbox config) enabled of
                      Some True \<Rightarrow> Some (generateSandbox config)
                    | _ \<Rightarrow> None);
              hs = generateHooksConfig config
          in Inr \<lparr>settings_permissions = perms,
                  settings_sandbox = sb,
                  settings_hooks = (if length hs > 0 then Some hs else None),
                  defaultMode = None\<rparr>)"

section \<open>The workflow generator (generators/workflow.ts)\<close>

record ControlReport =
  report_id :: string
  report_framework :: string
  report_description :: string
  evidence :: "string list"

text \<open>The data bag handed to the compiled template.\<close>

record WorkflowData =
  projectName :: string
  protectedBranches :: "string list"
  secretPatterns :: "SecretPattern list"
  hasTerraform :: bool
  dynamodbBillingMode :: "string option"
  contractorMembers :: "string list"
  complianceControls :: "ControlReport list"

record GeneratedWorkflow =
  workflow_filename :: string
  workflow_content :: string

definition getProtectedBranches :: "GovernanceConfig \<Rightarrow> string list" where
  "getProtectedBranches config =
     map branch_name
       (or_empty (Option.bind (Option.bind (operational config) branches) protected))"

text \<open>
  \<^verbatim>\<open>s.includes(t)\<close> is \<open>sublist t s\<close>. With \<^verbatim>\<open>?.\<close> an absent pattern gives
  \<^verbatim>\<open>undefined\<close>, which is falsy.
\<close>

definition infra_gate :: "ApprovalGate \<Rightarrow> bool" where
  "infra_gate gate =
     (case path_pattern (trigger gate) of
        None \<Rightarrow> False
      | Some p \<Rightarrow> sublist ''.tf'' p \<or> sublist ''infrastructure/'' p)"

primrec gates_loop :: "ApprovalGate list \<Rightarrow> bool" where
  "gates_loop [] = False"
| "gates_loop (gate # rest) = (if infra_gate gate then True else gates_loop rest)"

definition checkTerraformUsage :: "GovernanceConfig \<Rightarrow> bool" where
  "checkTerraformUsage config =
     (case approval_gates config of None \<Rightarrow> False | Some gs \<Rightarrow> gates_loop gs)"

definition getContractorMembers :: "GovernanceConfig \<Rightarrow> string list" where
  "getContractorMembers config =
     (case Option.bind (roles config) (\<lambda>rs. rs ''contractor'') of
        None \<Rightarrow> []
      | Some r \<Rightarrow> or_empty (members r))"

definition getComplianceControls :: "GovernanceConfig \<Rightarrow> ControlReport list" where
  "getComplianceControls config =
     (case Option.bind (compliance config) frameworks of
        None \<Rightarrow> []
      | Some fws \<Rightarrow>
          concat (map (\<lambda>framework.
            map (\<lambda>control.
                  \<lparr>report_id = control_id control,
                   report_framework = framework_name framework,
                   report_description = control_description control,
                   evidence = satisfied_by control\<rparr>)
                (controls framework)) fws))"

definition workflow_data :: "GovernanceConfig \<Rightarrow> WorkflowData" where
  "workflow_data config =
     \<lparr>projectName = project config,
      protectedBranches = getProtectedBranches config,
      secretPatterns =
        or_empty (Option.bind (Option.bind (secrets config) detection) patterns),
      hasTerraform = checkTerraformUsage config,
      dynamodbBillingMode =
        map_option billing_mode (Option.bind (operational config) dynamodb),
      contractorMembers = getContractorMembers config,
      complianceControls = getComplianceControls config\<rparr>"

text \<open>
  The template file and the templating engine are outside the sources: \<open>template\<close> is
  the compiled template of \<^verbatim>\<open>governance.yml.hbs\<close>, \<open>Inl\<close> when reading or rendering
  it throws.
\<close>

definition WorkflowGenerator_generate ::
  "(WorkflowData \<Rightarrow> string + string) \<Rightarrow> GovernanceConfig \<Rightarrow> string + GeneratedWorkflow" where
  "WorkflowGenerator_generate template config =
     and_then (template (workflow_data config)) (\<lambda>content.
       Inr \<lparr>workflow_filename = ''governance.yml'', workflow_content = content\<rparr>)"

section \<open>The compiler (compiler.ts)\<close>

record CompilationFile =
  file_path :: string
  file_content :: string
  executable :: "bool option"

record GeneratedHook =
  hook_filename :: string
  hook_content :: string
  hook_executable :: bool

text \<open>
  What \<^verbatim>\<open>generateFiles\<close> calls and the sources do not hold: \<^verbatim>\<open>JSON.stringify\<close> with
  indentation 2, \<^verbatim>\<open>HooksGenerator.generate\<close> (generators/hooks.ts) and the compiled
  workflow template. Each is called with the settings, the document or the data alone,
  and is a parameter here; the two that may throw return a sum. What they are in a run
  of the compiler on a given disk is \<open>run_externals\<close> below.
\<close>

record Externals =
  json_stringify :: "ClaudeSettings \<Rightarrow> string"
  hooks_generate :: "GovernanceConfig \<Rightarrow> string + GeneratedHook list"
  workflow_template :: "WorkflowData \<Rightarrow> string + string"

text \<open>A template literal prints an absent value as \<^verbatim>\<open>undefined\<close>.\<close>

definition interpolate :: "string option \<Rightarrow> string" where
  "interpolate s = (case s of None \<Rightarrow> ''undefined'' | Some v \<Rightarrow> v)"

fun action_type_string :: "ActionType \<Rightarrow> string" where
  "action_type_string command = ''command''"
| "action_type_string prompt = ''prompt''"
| "action_type_string agent = ''agent''"

definition doc_rule :: "string option \<Rightarrow> string option \<Rightarrow> string" where
  "doc_rule field rsn =
     ''- `'' @ interpolate field @ ''`'' @
     (case truthy_string rsn of None \<Rightarrow> [] | Some r \<Rightarrow> '' - '' @ r) @ ''\<newline>''"

definition doc_rules ::
  "string \<Rightarrow> (PermissionRule \<Rightarrow> string option) \<Rightarrow> PermissionRule list option \<Rightarrow> string" where
  "doc_rules title field rules =
     (case rules of
        None \<Rightarrow> []
      | Some rs \<Rightarrow>
          if length rs > 0
          then title @ ''\<newline>'' @ concat (map (\<lambda>r. doc_rule (field r) (reason r)) rs) @
               ''\<newline>''
          else [])"

definition doc_permissions :: "Permissions \<Rightarrow> string" where
  "doc_permissions perms =
     ''## Permissions\<newline>\<newline>'' @
     (case filesystem perms of
        None \<Rightarrow> []
      | Some fs \<Rightarrow>
          ''### Filesystem Access\<newline>\<newline>'' @
          doc_rules ''**Blocked paths:**'' path (deny fs) @
          doc_rules ''**Requires approval:**'' path (ask fs)) @
     (case commands perms of
        None \<Rightarrow> []
      | Some cs \<Rightarrow>
          ''### Command Restrictions\<newline>\<newline>'' @
          doc_rules ''**Blocked commands:**'' pattern (deny cs))"

definition doc_gate :: "ApprovalGate \<Rightarrow> string" where
  "doc_gate gate =
     ''### '' @ gate_name gate @ ''\<newline>\<newline>'' @
     ''**Trigger:** '' @
     (case truthy_string (path_pattern (trigger gate)) of
        Some p \<Rightarrow> ''Files matching `'' @ p @ ''`''
      | None \<Rightarrow>
          (case truthy_string (command_pattern (trigger gate)) of
             Some c \<Rightarrow> ''Commands matching `'' @ c @ ''`''
           | None \<Rightarrow> [])) @
     ''\<newline>\<newline>'' @
     ''**Action:** '' @ action_type_string (action_type (action gate)) @ ''\<newline>\<newline>''"

definition doc_control :: "ComplianceControl \<Rightarrow> string" where
  "doc_control control =
     ''**'' @ control_id control @ '':** '' @ control_description control @ ''\<newline>'' @
     ''- Satisfied by: '' @ join '', '' (satisfied_by control) @ ''\<newline>\<newline>''"

definition doc_framework :: "ComplianceFramework \<Rightarrow> string" where
  "doc_framework framework =
     ''### '' @ framework_name framework @ ''\<newline>\<newline>'' @
     concat (map doc_control (controls framework))"

definition generateDocumentation :: "GovernanceConfig \<Rightarrow> string" where
  "generateDocumentation config =
     ''# Governance Documentation\<newline>\<newline>'' @
     ''Project: '' @ project config @ ''\<newline>\<newline>'' @
     (case truthy_string (description config) of
        None \<Rightarrow> []
      | Some d \<Rightarrow> d @ ''\<newline>\<newline>'') @
     ''## Overview\<newline>\<newline>'' @
     ''This project uses Claude Code Governance framework for:\<newline>\<newline>'' @
     ''- Automated policy enforcement during development\<newline>'' @
     ''- CI/CD integration for tamper-proof checks\<newline>'' @
     ''- Compliance control mapping and audit trails\<newline>\<newline>'' @
     (case permissions config of None \<Rightarrow> [] | Some perms \<Rightarrow> doc_permissions perms) @
     (case approval_gates config of
        None \<Rightarrow> []
      | Some gs \<Rightarrow>
          if length gs > 0
          then ''## Approval Gates\<newline>\<newline>'' @ concat (map doc_gate gs)
          else []) @
     (case Option.bind (compliance config) frameworks of
        None \<Rightarrow> []
      | Some fws \<Rightarrow>
          if length fws > 0
          then ''## Compliance\<newline>\<newline>'' @ concat (map doc_framework fws)
          else []) @
     ''---\<newline>\<newline>'' @
     ''*Auto-generated by [claude-governance](https://github.com/Lopie-Dev/claude-governance)*\<newline>''"

definition hook_file :: "GeneratedHook \<Rightarrow> CompilationFile" where
  "hook_file hook =
     \<lparr>file_path = ''.claude/hooks/'' @ hook_filename hook,
      file_content = hook_content hook,
      executable = Some (hook_executable hook)\<rparr>"

text \<open>
  \<^verbatim>\<open>generateFiles(config, baseDir)\<close>: the four groups of artifacts are produced in this
  order, and an exception in one of them leaves the function.
\<close>

definition generateFiles ::
  "Externals \<Rightarrow> GovernanceConfig \<Rightarrow> string \<Rightarrow> string + CompilationFile list" where
  "generateFiles ext config baseDir =
     and_then (SettingsGenerator_generate config) (\<lambda>settings.
     and_then (hooks_generate ext config) (\<lambda>hooks.
     and_then (WorkflowGenerator_generate (workflow_template ext) config) (\<lambda>workflow.
       Inr ([\<lparr>file_path = ''.claude/settings.json'',
               file_content = json_stringify ext settings,
               executable = None\<rparr>] @
            map hook_file hooks @
            [\<lparr>file_path = ''.github/workflows/'' @ workflow_filename workflow,
              file_content = workflow_content workflow,
              executable = None\<rparr>,
             \<lparr>file_path = ''GOVERNANCE.md'',
              file_content = generateDocumentation config,
              executable = None\<rparr>]))))"

section \<open>The parser (parser.ts)\<close>

text \<open>
  An element of an issue path or of an enum's option list: a string or a number. A path
  holds object keys and array indices, so a number is a natural number here, printed in
  decimal by \<^verbatim>\<open>join\<close>.
\<close>

datatype StrOrNum = Str string | Num nat

definition digit :: "nat \<Rightarrow> char" where
  "digit d = ''0123456789'' ! d"

fun decimal :: "nat \<Rightarrow> string" where
  "decimal n = (if n < 10 then [digit n] else decimal (n div 10) @ [digit (n mod 10)])"

fun to_string :: "StrOrNum \<Rightarrow> string" where
  "to_string (Str s) = s"
| "to_string (Num n) = decimal n"

text \<open>
  One issue of the schema library's error. \<open>issue_options\<close> is the option list the library
  attaches to an issue whose code is \<^verbatim>\<open>invalid_enum_value\<close>; it is not read for another
  code.
\<close>

record ZodIssue =
  issue_code :: string
  issue_path :: "StrOrNum list"
  issue_message :: string
  issue_options :: "StrOrNum list"

text \<open>
  The value caught by \<^verbatim>\<open>parseString\<close>: \<open>errors\<close> is present when the value is the
  library's validation error.
\<close>

record CaughtError =
  errors :: "ZodIssue list option"
  message :: string

definition issue_line :: "ZodIssue \<Rightarrow> string" where
  "issue_line err =
     ''  - '' @ join ''.'' (map to_string (issue_path err)) @ '': '' @ issue_message err"

definition hint_line :: "ZodIssue \<Rightarrow> string" where
  "hint_line err = ''    Allowed values: '' @ join '', '' (map to_string (issue_options err))"

text \<open>The lines pushed by one turn of the loop over \<^verbatim>\<open>error.errors\<close>.\<close>

definition issue_lines :: "ZodIssue \<Rightarrow> string list" where
  "issue_lines err =
     issue_line err #
     (if issue_code err = ''invalid_enum_value'' then [hint_line err] else [])"

definition validation_lines :: "CaughtError \<Rightarrow> string \<Rightarrow> string list" where
  "validation_lines error source =
     [''Validation errors in '' @ source @ '':''] @
     (case errors error of
        Some errs \<Rightarrow> concat (map issue_lines errs)
      | None \<Rightarrow> [''  '' @ message error])"

definition formatValidationError :: "CaughtError \<Rightarrow> string \<Rightarrow> string" where
  "formatValidationError error source = join ''\<newline>'' (validation_lines error source)"

section \<open>The schema library and the schema (schema/governance.ts)\<close>

text \<open>
  The schema of \<^verbatim>\<open>governance.ts\<close> is written with the combinators of the schema library
  (zod, version 3), which is a dependency and not among the sources. The combinators the
  schema uses are a datatype here, and \<open>check\<close> is the library's synchronous \<^verbatim>\<open>parse\<close> as
  far as issues go: it walks the schema and the tree together and returns the issues it
  adds, in the order it adds them. An absent value (\<^verbatim>\<open>undefined\<close>) is \<open>None\<close>. An
  object of the tree is the list of its entries in the order in which the engine
  enumerates its keys, with no key twice; what a loader can return beyond these trees
  (dates, NaN, the infinities) is left out.
  \<^item> \<^verbatim>\<open>z.string()\<close>, \<^verbatim>\<open>z.number()\<close>, \<^verbatim>\<open>z.boolean()\<close>: one \<^verbatim>\<open>invalid_type\<close> issue for a value
    of another kind; \<^verbatim>\<open>z.any()\<close>: no issue.
  \<^item> \<^verbatim>\<open>z.enum\<close>: \<^verbatim>\<open>invalid_type\<close> for a value that is not a string, with the quoted
    options as the expected type; \<^verbatim>\<open>invalid_enum_value\<close>, carrying the options, for a
    string that is not an option.
  \<^item> \<^verbatim>\<open>z.array\<close>, \<^verbatim>\<open>z.record\<close>, \<^verbatim>\<open>z.object\<close>: \<^verbatim>\<open>invalid_type\<close> for a value that is not an
    array or an object; otherwise every element, every entry, every key of the shape is
    checked, under the path extended by the index or the key, and all their issues are
    kept. An object's keys outside the shape are dropped without an issue.
  \<^item> \<^verbatim>\<open>.optional()\<close>: no issue for an absent value, the inner check otherwise.
  The wording of a message comes from the library's error map, which depends on the
  library's version: it is a parameter, given the issue code, the expected type and the
  value received.
\<close>

datatype schema =
    ZString
  | ZNumber
  | ZBoolean
  | ZAny
  | ZEnum "string list"
  | ZArray schema
  | ZRecord schema
  | ZObject "(string \<times> schema) list"
  | ZOptional schema

type_synonym error_map = "string \<Rightarrow> string \<Rightarrow> json option \<Rightarrow> string"

text \<open>The options of an enum as the library prints them: quoted, separated by bars.\<close>

definition joinValues :: "string list \<Rightarrow> string" where
  "joinValues vals = join '' | '' (map (\<lambda>v. [CHR 0x27] @ v @ [CHR 0x27]) vals)"

definition invalid_type ::
  "error_map \<Rightarrow> string \<Rightarrow> StrOrNum list \<Rightarrow> json option \<Rightarrow> ZodIssue" where
  "invalid_type m expected p v =
     \<lparr>issue_code = ''invalid_type'', issue_path = p,
      issue_message = m ''invalid_type'' expected v, issue_options = []\<rparr>"

definition invalid_enum_value ::
  "error_map \<Rightarrow> string list \<Rightarrow> StrOrNum list \<Rightarrow> json option \<Rightarrow> ZodIssue" where
  "invalid_enum_value m opts p v =
     \<lparr>issue_code = ''invalid_enum_value'', issue_path = p,
      issue_message = m ''invalid_enum_value'' (joinValues opts) v,
      issue_options = map Str opts\<rparr>"

fun check :: "error_map \<Rightarrow> schema \<Rightarrow> StrOrNum list \<Rightarrow> json option \<Rightarrow> ZodIssue list" where
  "check m ZString p v =
     (case v of Some (JStr s) \<Rightarrow> [] | _ \<Rightarrow> [invalid_type m ''string'' p v])"
| "check m ZNumber p v =
     (case v of Some (JNum n) \<Rightarrow> [] | _ \<Rightarrow> [invalid_type m ''number'' p v])"
| "check m ZBoolean p v =
     (case v of Some (JBool b) \<Rightarrow> [] | _ \<Rightarrow> [invalid_type m ''boolean'' p v])"
| "check m ZAny p v = []"
| "check m (ZEnum opts) p v =
     (case v of
        Some (JStr s) \<Rightarrow> if s \<in> set opts then [] else [invalid_enum_value m opts p v]
      | _ \<Rightarrow> [invalid_type m (joinValues opts) p v])"
| "check m (ZArray item) p v =
     (case v of
        Some (JArr xs) \<Rightarrow>
          concat (map (\<lambda>ix. check m item (p @ [Num (fst ix)]) (Some (snd ix)))
                    (enumerate 0 xs))
      | _ \<Rightarrow> [invalid_type m ''array'' p v])"
| "check m (ZRecord val) p v =
     (case v of
        Some (JObj kvs) \<Rightarrow>
          concat (map (\<lambda>kv. check m val (p @ [Str (fst kv)]) (Some (snd kv))) kvs)
      | _ \<Rightarrow> [invalid_type m ''object'' p v])"
| "check m (ZObject shape) p v =
     (case v of
        Some (JObj kvs) \<Rightarrow>
          concat (map (\<lambda>ks. check m (snd ks) (p @ [Str (fst ks)]) (map_of kvs (fst ks)))
                    shape)
      | _ \<Rightarrow> [invalid_type m ''object'' p v])"
| "check m (ZOptional inner) p v =
     (case v of None \<Rightarrow> [] | Some x \<Rightarrow> check m inner p v)"

text \<open>The schemas of \<^verbatim>\<open>governance.ts\<close>, in the order of the file.\<close>

definition PermissionRuleSchema :: schema where
  "PermissionRuleSchema =
     ZObject [(''path'', ZOptional ZString), (''pattern'', ZOptional ZString),
              (''reason'', ZOptional ZString)]"

definition FilesystemPermissionsSchema :: schema where
  "FilesystemPermissionsSchema =
     ZObject [(''deny'', ZOptional (ZArray PermissionRuleSchema)),
              (''ask'', ZOptional (ZArray PermissionRuleSchema)),
              (''allow'', ZOptional (ZArray PermissionRuleSchema))]"

definition CommandPermissionsSchema :: schema where
  "CommandPermissionsSchema =
     ZObject [(''deny'', ZOptional (ZArray PermissionRuleSchema)),
              (''ask'', ZOptional (ZArray PermissionRuleSchema)),
              (''allow'', ZOptional (ZArray PermissionRuleSchema))]"

definition NetworkPermissionsSchema :: schema where
  "NetworkPermissionsSchema =
     ZObject [(''allowed_domains'', ZOptional (ZArray ZString)),
              (''blocked_domains'', ZOptional (ZArray ZString))]"

definition PermissionsSchema :: schema where
  "PermissionsSchema =
     ZObject [(''filesystem'', ZOptional FilesystemPermissionsSchema),
              (''commands'', ZOptional CommandPermissionsSchema),
              (''network'', ZOptional NetworkPermissionsSchema)]"

definition SecretPatternSchema :: schema where
  "SecretPatternSchema =
     ZObject [(''pattern'', ZString), (''name'', ZOptional ZString)]"

definition SecretsSchema :: schema where
  "SecretsSchema =
     ZObject [(''policy'', ZOptional ZString),
              (''allowed_sources'', ZOptional (ZArray ZString)),
              (''detection'', ZOptional (ZObject
                 [(''patterns'', ZOptional (ZArray SecretPatternSchema))])),
              (''enforcement'', ZOptional (ZObject
                 [(''hook'', ZOptional ZString), (''action'', ZOptional ZString),
                  (''message'', ZOptional ZString)]))]"

definition ApprovalGateActionSchema :: schema where
  "ApprovalGateActionSchema =
     ZObject [(''type'', ZEnum [''command'', ''prompt'', ''agent'']),
              (''command'', ZOptional ZString), (''prompt'', ZOptional ZString),
              (''timeout'', ZOptional ZNumber)]"

definition ApprovalGateTriggerSchema :: schema where
  "ApprovalGateTriggerSchema =
     ZObject [(''tool'', ZOptional ZString), (''path_pattern'', ZOptional ZString),
              (''command_pattern'', ZOptional ZString)]"

definition ApprovalGateSchema :: schema where
  "ApprovalGateSchema =
     ZObject [(''name'', ZString), (''trigger'', ApprovalGateTriggerSchema),
              (''action'', ApprovalGateActionSchema)]"

definition AuditSchema :: schema where
  "AuditSchema =
     ZObject [(''enabled'', ZOptional ZBoolean),
              (''events'', ZOptional (ZArray ZString)),
              (''destinations'', ZOptional (ZArray (ZObject
                 [(''type'', ZString), (''path'', ZOptional ZString),
                  (''bucket'', ZOptional ZString), (''prefix'', ZOptional ZString),
                  (''profile'', ZOptional ZString), (''endpoint'', ZOptional ZString),
                  (''headers'', ZOptional (ZRecord ZString))]))),
              (''required_fields'', ZOptional (ZArray ZString)),
              (''retention'', ZOptional ZString)]"

definition SandboxSchema :: schema where
  "SandboxSchema =
     ZObject [(''enabled'', ZOptional ZBoolean),
              (''mode'', ZOptional (ZEnum [''auto-allow'', ''regular''])),
              (''filesystem'', ZOptional (ZObject
                 [(''allowed_paths'', ZOptional (ZArray ZString)),
                  (''blocked_paths'', ZOptional (ZArray ZString))])),
              (''network'', ZOptional (ZObject [(''inherit_from'', ZOptional ZString)])),
              (''excluded_commands'', ZOptional (ZArray ZString))]"

definition ComplianceControlSchema :: schema where
  "ComplianceControlSchema =
     ZObject [(''id'', ZString), (''description'', ZString),
              (''satisfied_by'', ZArray ZString)]"

definition ComplianceFrameworkSchema :: schema where
  "ComplianceFrameworkSchema =
     ZObject [(''name'', ZString), (''controls'', ZArray ComplianceControlSchema)]"

definition RoleSchema :: schema where
  "RoleSchema =
     ZObject [(''members'', ZOptional (ZArray ZString)),
              (''restrictions'', ZOptional (ZArray ZString)),
              (''additional_gates'', ZOptional (ZArray ApprovalGateSchema)),
              (''behavior'', ZOptional (ZArray ZString))]"

definition OperationalSchema :: schema where
  "OperationalSchema =
     ZObject [(''branches'', ZOptional (ZObject
                 [(''protected'', ZOptional (ZArray (ZObject
                    [(''name'', ZString), (''requires'', ZRecord ZAny)])))])),
              (''deployment'', ZOptional (ZObject
                 [(''sequence'', ZOptional (ZArray (ZObject
                    [(''environment'', ZString), (''branch'', ZString),
                     (''auto_deploy'', ZOptional ZBoolean),
                     (''gates'', ZOptional (ZArray ZString))])))])),
              (''dynamodb'', ZOptional (ZObject
                 [(''billing_mode'', ZString), (''enforcement'', ZString),
                  (''reason'', ZOptional ZString)])),
              (''git'', ZOptional (ZObject
                 [(''no_claude_attribution'', ZOptional ZBoolean),
                  (''reason'', ZOptional ZString)]))]"

definition RequiredTestSchema :: schema where
  "RequiredTestSchema =
     ZObject [(''name'', ZString), (''command'', ZString),
              (''directories'', ZOptional (ZArray ZString))]"

definition TestingSchema :: schema where
  "TestingSchema =
     ZObject [(''required_before_commit'', ZOptional (ZArray RequiredTestSchema)),
              (''required_before_merge'', ZOptional (ZArray RequiredTestSchema)),
              (''enforcement'', ZOptional (ZObject
                 [(''hook'', ZString), (''action'', ZString),
                  (''prompt'', ZOptional ZString)]))]"

definition CostControlSchema :: schema where
  "CostControlSchema =
     ZObject [(''resource'', ZOptional ZString), (''policy'', ZOptional ZString),
              (''alert_threshold'', ZOptional ZString), (''action'', ZOptional ZString),
              (''enforcement'', ZOptional ZString)]"

definition GovernanceSchema :: schema where
  "GovernanceSchema =
     ZObject [(''version'', ZString),
              (''project'', ZString),
              (''description'', ZOptional ZString),
              (''data_classification'', ZOptional (ZRecord (ZArray ZString))),
              (''permissions'', ZOptional PermissionsSchema),
              (''secrets'', ZOptional SecretsSchema),
              (''approval_gates'', ZOptional (ZArray ApprovalGateSchema)),
              (''operational'', ZOptional OperationalSchema),
              (''testing'', ZOptional TestingSchema),
              (''roles'', ZOptional (ZRecord RoleSchema)),
              (''audit'', ZOptional AuditSchema),
              (''sandbox'', ZOptional SandboxSchema),
              (''compliance'', ZOptional (ZObject
                 [(''frameworks'', ZOptional (ZArray ComplianceFrameworkSchema))])),
              (''cost_controls'', ZOptional (ZRecord (ZArray CostControlSchema)))]"

text \<open>
  The YAML loader is outside the sources too: \<open>yaml_load\<close> returns the message of the
  exception it throws, or the loaded tree (nothing for an empty document). \<open>error_text\<close>
  is the \<^verbatim>\<open>message\<close> property of the library's error, and \<open>typed\<close> the value the library
  returns for a tree without issues, read as the canonical model.
\<close>

record Parsers =
  yaml_load :: "string \<Rightarrow> string + json option"
  error_map :: error_map
  error_text :: "ZodIssue list \<Rightarrow> string"
  typed :: "json option \<Rightarrow> GovernanceConfig"

text \<open>\<^verbatim>\<open>GovernanceSchema.parse(data)\<close>: it throws its error when there is an issue.\<close>

definition GovernanceSchema_parse ::
  "Parsers \<Rightarrow> json option \<Rightarrow> CaughtError + GovernanceConfig" where
  "GovernanceSchema_parse ps data =
     (let issues = check (error_map ps) GovernanceSchema [] data
      in if issues = [] then Inr (typed ps data)
         else Inl \<lparr>errors = Some issues, message = error_text ps issues\<rparr>)"

definition parseString :: "Parsers \<Rightarrow> string \<Rightarrow> string \<Rightarrow> string + GovernanceConfig" where
  "parseString ps content source =
     (case yaml_load ps content of
        Inl msg \<Rightarrow> Inl (''YAML parsing error in '' @ source @ '': '' @ msg)
      | Inr data \<Rightarrow>
          (case GovernanceSchema_parse ps data of
             Inl error \<Rightarrow> Inl (formatValidationError error source)
           | Inr config \<Rightarrow> Inr config))"

section \<open>Files on disk (parser.ts, workflow.ts, compiler.ts)\<close>

text \<open>
  The calls of the \<^verbatim>\<open>fs\<close> and \<^verbatim>\<open>path\<close> modules that the sources make, over a type \<open>'d\<close>
  of disk states. A call that may throw returns the message of its exception as \<open>Inl\<close>;
  a call that changes the disk returns the new state. \<open>mkdirSync\<close> is the recursive one,
  \<open>chmodSync\<close> sets the mode \<^verbatim>\<open>0o755\<close>, \<open>path_join\<close> takes the list of its arguments, and
  \<open>win32\<close> is the test \<^verbatim>\<open>process.platform === 'win32'\<close>.
\<close>

record 'd NodeFs =
  existsSync :: "'d \<Rightarrow> string \<Rightarrow> bool"
  readFileSync :: "'d \<Rightarrow> string \<Rightarrow> string + string"
  mkdirSync :: "'d \<Rightarrow> string \<Rightarrow> string + 'd"
  writeFileSync :: "'d \<Rightarrow> string \<Rightarrow> string \<Rightarrow> string + 'd"
  chmodSync :: "'d \<Rightarrow> string \<Rightarrow> string + 'd"
  path_join :: "string list \<Rightarrow> string"
  path_dirname :: "string \<Rightarrow> string"
  win32 :: bool

definition parseFile ::
  "'d NodeFs \<Rightarrow> Parsers \<Rightarrow> 'd \<Rightarrow> string \<Rightarrow> string + GovernanceConfig" where
  "parseFile fs ps disk filePath =
     (if \<not> existsSync fs disk filePath
      then Inl (''Governance file not found: '' @ filePath)
      else and_then (readFileSync fs disk filePath) (\<lambda>content.
             parseString ps content filePath))"

text \<open>
  What one run of the compiler uses beyond the disk and is not among the sources: the
  directory of the generators' module (\<^verbatim>\<open>__dirname\<close>), the templating engine
  (\<^verbatim>\<open>Handlebars.compile(template)(data)\<close>), \<^verbatim>\<open>JSON.stringify\<close> with indentation 2, and
  the hook generator of generators/hooks.ts, which is handed the disk of the run like
  the workflow generator beside it.
\<close>

record 'd Modules =
  module_dir :: string
  handlebars_compile :: "string \<Rightarrow> WorkflowData \<Rightarrow> string + string"
  stringify :: "ClaudeSettings \<Rightarrow> string"
  hooks_generator :: "'d \<Rightarrow> GovernanceConfig \<Rightarrow> string + GeneratedHook list"

text \<open>
  The constructor of \<^verbatim>\<open>WorkflowGenerator\<close>, called without an argument, and the first
  lines of its \<^verbatim>\<open>generate\<close>: the template is read from the disk at every call.
\<close>

definition templatesDir :: "'d NodeFs \<Rightarrow> 'd Modules \<Rightarrow> string" where
  "templatesDir fs ms = path_join fs [module_dir ms, ''..'', ''templates'', ''workflows'']"

definition templatePath :: "'d NodeFs \<Rightarrow> 'd Modules \<Rightarrow> string" where
  "templatePath fs ms = path_join fs [templatesDir fs ms, ''governance.yml.hbs'']"

definition compiled_template ::
  "'d NodeFs \<Rightarrow> 'd Modules \<Rightarrow> 'd \<Rightarrow> WorkflowData \<Rightarrow> string + string" where
  "compiled_template fs ms disk data =
     and_then (readFileSync fs disk (templatePath fs ms)) (\<lambda>template.
       handlebars_compile ms template data)"

text \<open>What \<^verbatim>\<open>generateFiles\<close> calls in a run on the disk \<open>disk\<close>.\<close>

definition run_externals :: "'d NodeFs \<Rightarrow> 'd Modules \<Rightarrow> 'd \<Rightarrow> Externals" where
  "run_externals fs ms disk =
     \<lparr>json_stringify = stringify ms,
      hooks_generate = hooks_generator ms disk,
      workflow_template = compiled_template fs ms disk\<rparr>"

record CompilationResult =
  success :: bool
  files :: "CompilationFile list"
  result_errors :: "string list option"

text \<open>The value returned by the \<^verbatim>\<open>catch\<close> blocks of \<^verbatim>\<open>compile\<close> and \<^verbatim>\<open>preview\<close>.\<close>

definition failure :: "string \<Rightarrow> CompilationResult" where
  "failure msg = \<lparr>success = False, files = [], result_errors = Some [msg]\<rparr>"

text \<open>
  \<^verbatim>\<open>writeFiles(files, baseDir)\<close>: the loop over the files, with the disk passed along. It
  returns the message of the exception that left the loop, if any, and the disk as the
  loop left it: what was written before the exception stays written.
\<close>

fun writeFiles ::
  "'d NodeFs \<Rightarrow> CompilationFile list \<Rightarrow> string \<Rightarrow> 'd \<Rightarrow> string option \<times> 'd" where
  "writeFiles fs [] baseDir disk = (None, disk)"
| "writeFiles fs (file # rest) baseDir disk =
     (let fullPath = path_join fs [baseDir, file_path file];
          dir = path_dirname fs fullPath
      in case (if \<not> existsSync fs disk dir then mkdirSync fs disk dir else Inr disk) of
           Inl e \<Rightarrow> (Some e, disk)
         | Inr disk1 \<Rightarrow>
             (case writeFileSync fs disk1 fullPath (file_content file) of
                Inl e \<Rightarrow> (Some e, disk1)
              | Inr disk2 \<Rightarrow>
                  (case (if executable file = Some True \<and> \<not> win32 fs
                         then chmodSync fs disk2 fullPath else Inr disk2) of
                     Inl e \<Rightarrow> (Some e, disk2)
                   | Inr disk3 \<Rightarrow> writeFiles fs rest baseDir disk3)))"

definition compile ::
  "'d NodeFs \<Rightarrow> Parsers \<Rightarrow> 'd Modules \<Rightarrow> string \<Rightarrow> string \<Rightarrow> 'd \<Rightarrow>
   CompilationResult \<times> 'd" where
  "compile fs ps ms governancePath outputDir disk =
     (case parseFile fs ps disk governancePath of
        Inl e \<Rightarrow> (failure e, disk)
      | Inr config \<Rightarrow>
          (case generateFiles (run_externals fs ms disk) config outputDir of
             Inl e \<Rightarrow> (failure e, disk)
           | Inr fls \<Rightarrow>
               (case writeFiles fs fls outputDir disk of
                  (Some e, disk') \<Rightarrow> (failure e, disk')
                | (None, disk') \<Rightarrow>
                    (\<lparr>success = True, files = fls, result_errors = None\<rparr>, disk'))))"

definition preview ::
  "'d NodeFs \<Rightarrow> Parsers \<Rightarrow> 'd Modules \<Rightarrow> string \<Rightarrow> 'd \<Rightarrow> CompilationResult" where
  "preview fs ps ms governancePath disk =
     (case parseFile fs ps disk governancePath of
        Inl e \<Rightarrow> failure e
      | Inr config \<Rightarrow>
          (case generateFiles (run_externals fs ms disk) config ''.'' of
             Inl e \<Rightarrow> failure e
           | Inr fls \<Rightarrow> \<lparr>success = True, files = fls, result_errors = None\<rparr>))"

section \<open>Vocabulary of the properties\<close>

text \<open>
  The rules a document declares in one list of one scope (an absent section or list has
  no rules), and the strings of one list of the generated settings (an absent key has no
  strings).
\<close>

definition filesystem_rules ::
  "(PermissionRule PermissionLists \<Rightarrow> PermissionRule list option) \<Rightarrow> GovernanceConfig \<Rightarrow>
   PermissionRule list" where
  "filesystem_rules sel config =
     or_empty (Option.bind (Option.bind (permissions config) filesystem) sel)"

definition command_rules ::
  "(PermissionRule PermissionLists \<Rightarrow> PermissionRule list option) \<Rightarrow> GovernanceConfig \<Rightarrow>
   PermissionRule list" where
  "command_rules sel config =
     or_empty (Option.bind (Option.bind (permissions config) commands) sel)"

definition descriptor_rules ::
  "(string PermissionLists \<Rightarrow> string list option) \<Rightarrow> ClaudeSettings \<Rightarrow> string list" where
  "descriptor_rules sel s = or_empty (Option.bind (settings_permissions s) sel)"

definition all_filesystem_rules :: "GovernanceConfig \<Rightarrow> PermissionRule list" where
  "all_filesystem_rules config =
     filesystem_rules deny config @ filesystem_rules ask config @ filesystem_rules allow config"

definition all_command_rules :: "GovernanceConfig \<Rightarrow> PermissionRule list" where
  "all_command_rules config =
     command_rules deny config @ command_rules ask config @ command_rules allow config"


text \<open>
  A violation of a schema by a tree, as the place where it is. At a place the value is
  not what the schema asks for when a required value is absent, when the value is of
  another kind than the schema's, or when it is a string outside an enum's options
  (\<open>mismatch\<close>). The violations of a tree are the mismatches at its own place and at the
  places reached through objects, arrays and records that are themselves as the schema
  asks: what lies under a mismatch is not looked at, so no violation hides another.
\<close>

fun mismatch :: "schema \<Rightarrow> json option \<Rightarrow> bool" where
  "mismatch ZString v = (case v of Some (JStr s) \<Rightarrow> False | _ \<Rightarrow> True)"
| "mismatch ZNumber v = (case v of Some (JNum n) \<Rightarrow> False | _ \<Rightarrow> True)"
| "mismatch ZBoolean v = (case v of Some (JBool b) \<Rightarrow> False | _ \<Rightarrow> True)"
| "mismatch ZAny v = False"
| "mismatch (ZEnum opts) v = (case v of Some (JStr s) \<Rightarrow> s \<notin> set opts | _ \<Rightarrow> True)"
| "mismatch (ZArray item) v = (case v of Some (JArr xs) \<Rightarrow> False | _ \<Rightarrow> True)"
| "mismatch (ZRecord val) v = (case v of Some (JObj kvs) \<Rightarrow> False | _ \<Rightarrow> True)"
| "mismatch (ZObject shape) v = (case v of Some (JObj kvs) \<Rightarrow> False | _ \<Rightarrow> True)"
| "mismatch (ZOptional inner) v = (case v of None \<Rightarrow> False | Some x \<Rightarrow> mismatch inner v)"

inductive violation :: "schema \<Rightarrow> json option \<Rightarrow> StrOrNum list \<Rightarrow> bool" where
  here: "mismatch S v \<Longrightarrow> violation S v []"
| field: "(k, S) \<in> set shape \<Longrightarrow> violation S (map_of kvs k) p \<Longrightarrow>
          violation (ZObject shape) (Some (JObj kvs)) (Str k # p)"
| element: "i < length xs \<Longrightarrow> violation S (Some (xs ! i)) p \<Longrightarrow>
          violation (ZArray S) (Some (JArr xs)) (Num i # p)"
| entry: "(k, x) \<in> set kvs \<Longrightarrow> violation S (Some x) p \<Longrightarrow>
          violation (ZRecord S) (Some (JObj kvs)) (Str k # p)"
| present: "violation S (Some x) p \<Longrightarrow> violation (ZOptional S) (Some x) p"

code_pred violation .

section \<open>Example documents\<close>

text \<open>A document with only the two mandatory fields.\<close>

definition minimal_config :: "string \<Rightarrow> string \<Rightarrow> GovernanceConfig" where
  "minimal_config v p =
     \<lparr>version = v, project = p, description = None, data_classification = None,
      permissions = None, secrets = None, approval_gates = None, operational = None,
      testing = None, roles = None, audit = None, sandbox = None, compliance = None,
      cost_controls = None\<rparr>"

text \<open>The minimal governance file of the README.\<close>

definition readme_config :: GovernanceConfig where
  "readme_config =
     (minimal_config ''1.0'' ''my-app'')
     \<lparr>permissions := Some
        \<lparr>filesystem = Some
           \<lparr>deny = Some [\<lparr>path = Some ''.env*'', pattern = None,
                           reason = Some ''Use environment variables''\<rparr>],
            ask = None, allow = None\<rparr>,
         commands = Some
           \<lparr>deny = Some [\<lparr>path = None, pattern = Some ''rm -rf *'', reason = None\<rparr>,
                          \<lparr>path = None, pattern = Some ''git push --force*'', reason = None\<rparr>],
            ask = None, allow = None\<rparr>,
         network = None\<rparr>,
      secrets := Some
        \<lparr>policy = None, allowed_sources = None,
         detection = Some
           \<lparr>patterns = Some [\<lparr>secret_pattern = ''AKIA[0-9A-Z]{16}'',
                               secret_name = Some ''AWS Access Key''\<rparr>]\<rparr>,
         enforcement = Some
           \<lparr>secrets_hook = None, secrets_action = Some ''block'', secrets_message = None\<rparr>\<rparr>,
      approval_gates := Some
        [\<lparr>gate_name = ''production-deployment'',
          trigger = \<lparr>tool = None, path_pattern = None,
                     command_pattern = Some ''git push .* main''\<rparr>,
          action = \<lparr>action_type = prompt, action_command = None,
                    action_prompt = Some ''Deploy to production?'',
                    action_timeout = None\<rparr>\<rparr>]\<rparr>"

definition readme_settings :: ClaudeSettings where
  "readme_settings =
     \<lparr>settings_permissions = Some
        \<lparr>deny = Some [''Read|Write|Edit(.env*)'', ''Bash(rm -rf *)'',
                       ''Bash(git push --force*)''],
         ask = None, allow = None\<rparr>,
      settings_sandbox = None,
      settings_hooks = Some
        [(''PreToolUse'',
          [\<lparr>matcher = ''Bash'',
            hooks = [\<lparr>hook_type = prompt, hook_command = None,
                      hook_prompt = Some ''Deploy to production?'',
                      hook_timeout = None\<rparr>]\<rparr>])],
      defaultMode = None\<rparr>"

text \<open>Gates that exercise the three kinds of trigger and the falsy action values.\<close>

definition tool_gate :: ApprovalGate where
  "tool_gate =
     \<lparr>gate_name = ''shell-review'',
      trigger = \<lparr>tool = Some ''Bash'', path_pattern = None, command_pattern = Some ''rm *''\<rparr>,
      action = \<lparr>action_type = command, action_command = Some ''./review.sh'',
                action_prompt = None, action_timeout = Some 30\<rparr>\<rparr>"

definition path_gate :: ApprovalGate where
  "path_gate =
     \<lparr>gate_name = ''infra-change'',
      trigger = \<lparr>tool = None, path_pattern = Some ''infrastructure/**'',
                 command_pattern = None\<rparr>,
      action = \<lparr>action_type = prompt, action_command = Some [],
                action_prompt = Some ''Apply this change?'', action_timeout = Some 0\<rparr>\<rparr>"

definition empty_tool_gate :: ApprovalGate where
  "empty_tool_gate =
     \<lparr>gate_name = ''push'',
      trigger = \<lparr>tool = Some [], path_pattern = None, command_pattern = Some ''git push''\<rparr>,
      action = \<lparr>action_type = agent, action_command = None, action_prompt = Some [],
                action_timeout = None\<rparr>\<rparr>"

definition gates_config :: GovernanceConfig where
  "gates_config =
     (minimal_config ''1.0'' ''gates'')
     \<lparr>approval_gates := Some [tool_gate, path_gate, empty_tool_gate]\<rparr>"

definition gates_settings :: ClaudeSettings where
  "gates_settings =
     \<lparr>settings_permissions = None,
      settings_sandbox = None,
      settings_hooks = Some
        [(''PreToolUse'',
          [\<lparr>matcher = ''Bash'',
            hooks = [\<lparr>hook_type = command, hook_command = Some ''./review.sh'',
                      hook_prompt = None, hook_timeout = Some 30\<rparr>]\<rparr>,
           \<lparr>matcher = ''Edit|Write'',
            hooks = [\<lparr>hook_type = prompt, hook_command = None,
                      hook_prompt = Some ''Apply this change?'', hook_timeout = None\<rparr>]\<rparr>,
           \<lparr>matcher = ''Bash'',
            hooks = [\<lparr>hook_type = agent, hook_command = None, hook_prompt = None,
                      hook_timeout = None\<rparr>]\<rparr>])],
      defaultMode = None\<rparr>"

text \<open>A filesystem rule whose path is the empty string, and one without a path.\<close>

definition empty_path_config :: GovernanceConfig where
  "empty_path_config =
     (minimal_config ''1.0'' ''paths'')
     \<lparr>permissions := Some
        \<lparr>filesystem = Some
           \<lparr>deny = Some [\<lparr>path = Some [], pattern = None, reason = None\<rparr>],
            ask = None, allow = None\<rparr>,
         commands = None, network = None\<rparr>\<rparr>"

definition no_path_config :: GovernanceConfig where
  "no_path_config =
     (minimal_config ''1.0'' ''paths'')
     \<lparr>permissions := Some
        \<lparr>filesystem = Some
           \<lparr>deny = Some [\<lparr>path = None, pattern = Some ''.env*'', reason = None\<rparr>],
            ask = None, allow = None\<rparr>,
         commands = None, network = None\<rparr>\<rparr>"

text \<open>
  The default wording of the library's messages, and the names it gives to the kinds of
  values.
\<close>

definition kind_name :: "json option \<Rightarrow> string" where
  "kind_name v =
     (case v of
        None \<Rightarrow> ''undefined''
      | Some JNull \<Rightarrow> ''null''
      | Some (JBool b) \<Rightarrow> ''boolean''
      | Some (JNum n) \<Rightarrow> ''number''
      | Some (JStr s) \<Rightarrow> ''string''
      | Some (JArr xs) \<Rightarrow> ''array''
      | Some (JObj kvs) \<Rightarrow> ''object'')"

definition default_error_map :: error_map where
  "default_error_map code expected received =
     (if code = ''invalid_type''
      then (if received = None then ''Required''
            else ''Expected '' @ expected @ '', received '' @ kind_name received)
      else ''Invalid enum value. Expected '' @ expected @ '', received '' @
           (case received of Some (JStr s) \<Rightarrow> [CHR 0x27] @ s @ [CHR 0x27] | _ \<Rightarrow> []))"

text \<open>Parsers whose loader returns a given tree whatever the text.\<close>

definition tree_parsers :: "json \<Rightarrow> Parsers" where
  "tree_parsers doc =
     \<lparr>yaml_load = (\<lambda>content. Inr (Some doc)),
      error_map = default_error_map,
      error_text = (\<lambda>issues. []),
      typed = (\<lambda>data. minimal_config ''1.0'' ''typed'')\<rparr>"

text \<open>
  A tree with four violations: no version, a number for the project, a gate whose action
  type is a string outside the enum and whose timeout is a string.
\<close>

definition bad_doc :: json where
  "bad_doc =
     JObj [(''project'', JNum 7),
           (''approval_gates'', JArr
              [JObj [(''name'', JStr ''deploy''),
                     (''trigger'', JObj [(''command_pattern'', JStr ''git push'')]),
                     (''action'', JObj [(''type'', JStr ''shell''),
                                        (''timeout'', JStr ''30'')])]])]"


definition stub_externals :: Externals where
  "stub_externals =
     \<lparr>json_stringify = (\<lambda>settings. ''{}''),
      hooks_generate = (\<lambda>config. Inr []),
      workflow_template = (\<lambda>data. Inr (''name: '' @ projectName data))\<rparr>"

text \<open>A disk in memory: a map from paths to contents, every directory writable.\<close>

definition memory_fs :: "(string \<rightharpoonup> string) NodeFs" where
  "memory_fs =
     \<lparr>existsSync = (\<lambda>disk p. disk p \<noteq> None),
      readFileSync = (\<lambda>disk p. case disk p of None \<Rightarrow> Inl ''ENOENT'' | Some c \<Rightarrow> Inr c),
      mkdirSync = (\<lambda>disk p. Inr (disk(p \<mapsto> []))),
      writeFileSync = (\<lambda>disk p c. Inr (disk(p \<mapsto> c))),
      chmodSync = (\<lambda>disk p. Inr disk),
      path_join = join ''/'',
      path_dirname = (\<lambda>p. p @ ''/..''),
      win32 = False\<rparr>"

text \<open>
  Modules without hook scripts, whose engine puts the project name after the template.
\<close>

definition stub_modules :: "(string \<rightharpoonup> string) Modules" where
  "stub_modules =
     \<lparr>module_dir = ''/app/generators'',
      handlebars_compile = (\<lambda>template data. Inr (template @ projectName data)),
      stringify = (\<lambda>settings. ''{}''),
      hooks_generator = (\<lambda>disk config. Inr [])\<rparr>"

definition readme_parsers :: Parsers where
  "readme_parsers =
     \<lparr>yaml_load = (\<lambda>content. Inr (Some (JObj [(''version'', JStr ''1.0''),
                                               (''project'', JStr ''my-app'')]))),
      error_map = default_error_map,
      error_text = (\<lambda>issues. []),
      typed = (\<lambda>data. readme_config)\<rparr>"

text \<open>Two disks with the same governance file and the same template, and one other file.\<close>

definition readme_disk :: "string \<Rightarrow> string \<rightharpoonup> string" where
  "readme_disk other =
     [''governance.yaml'' \<mapsto> ''version: 1.0'',
      ''/app/generators/../templates/workflows/governance.yml.hbs'' \<mapsto> ''name: '',
      ''notes.txt'' \<mapsto> other]"

section \<open>Auxiliary facts\<close>

lemma and_then_Inr: "and_then r f = Inr y \<longleftrightarrow> (\<exists>x. r = Inr x \<and> f x = Inr y)"
  by (cases r) (simp_all add: and_then_def)

lemma and_then_Inl: "and_then r f = Inl e \<longleftrightarrow> r = Inl e \<or> (\<exists>x. r = Inr x \<and> f x = Inl e)"
  by (cases r) (simp_all add: and_then_def)

lemma map_result_Inr: "map_result f xs = Inr ys \<longleftrightarrow> map f xs = map Inr ys"
proof (induction xs arbitrary: ys)
  case Nil
  then show ?case by auto
next
  case (Cons x xs)
  show ?case
  proof (cases "f x")
    case (Inl e)
    then show ?thesis by (cases ys) auto
  next
    case fx: (Inr y)
    show ?thesis
    proof (cases "map_result f xs")
      case (Inl e)
      with Cons.IH have "\<And>zs. map f xs \<noteq> map Inr zs" by simp
      with fx Inl show ?thesis by (cases ys) auto
    next
      case (Inr zs)
      with Cons.IH [of zs] have "map f xs = map Inr zs" by simp
      with fx Inr show ?thesis
        by (cases ys) (auto simp: inj_map_eq_map [OF inj_Inr])
    qed
  qed
qed

lemma map_result_Inl: "map_result f xs = Inl e \<Longrightarrow> \<exists>x \<in> set xs. f x = Inl e"
  by (induction xs) (auto split: sum.splits)

lemma push_rules_Inr:
  "push_rules fmt rules cur = Inr r \<Longrightarrow>
     map Inr (or_empty r) = map Inr (or_empty cur) @ map fmt (or_empty rules)"
  by (auto simp: push_rules_def or_empty_def and_then_Inr map_result_Inr
           split: option.splits if_splits)

lemma push_rules_None:
  "push_rules fmt rules cur = Inr r \<Longrightarrow> r = None \<longleftrightarrow> cur = None \<and> or_empty rules = []"
  by (auto simp: push_rules_def or_empty_def and_then_Inr map_result_Inr
           split: option.splits if_splits)

lemma push_scope_Inr:
  assumes "push_scope fmt scope perms = Inr r"
  shows "map Inr (or_empty (deny r)) =
           map Inr (or_empty (deny perms)) @ map fmt (or_empty (Option.bind scope deny)) \<and>
         map Inr (or_empty (ask r)) =
           map Inr (or_empty (ask perms)) @ map fmt (or_empty (Option.bind scope ask)) \<and>
         map Inr (or_empty (allow r)) =
           map Inr (or_empty (allow perms)) @ map fmt (or_empty (Option.bind scope allow)) \<and>
         (deny r = None \<longleftrightarrow> deny perms = None \<and> or_empty (Option.bind scope deny) = []) \<and>
         (ask r = None \<longleftrightarrow> ask perms = None \<and> or_empty (Option.bind scope ask) = []) \<and>
         (allow r = None \<longleftrightarrow> allow perms = None \<and> or_empty (Option.bind scope allow) = [])"
proof (cases scope)
  case None
  with assms have "r = perms" by (simp add: push_scope_def)
  with None show ?thesis by (simp add: or_empty_def)
next
  case (Some s)
  with assms obtain d a l where
    d: "push_rules fmt (deny s) (deny perms) = Inr d" and
    a: "push_rules fmt (ask s) (ask perms) = Inr a" and
    l: "push_rules fmt (allow s) (allow perms) = Inr l" and
    r: "r = perms\<lparr>deny := d, ask := a, allow := l\<rparr>"
    by (auto simp: push_scope_def and_then_Inr)
  from Some r push_rules_Inr [OF d] push_rules_Inr [OF a] push_rules_Inr [OF l]
    push_rules_None [OF d] push_rules_None [OF a] push_rules_None [OF l]
  show ?thesis by simp
qed

lemma generatePermissions_Inr:
  assumes "generatePermissions config = Inr p"
  shows "map Inr (or_empty (deny p)) =
           map (\<lambda>r. formatFilePermission r ''Read|Write|Edit'') (filesystem_rules deny config) @
           map formatBashPermission (command_rules deny config) \<and>
         map Inr (or_empty (ask p)) =
           map (\<lambda>r. formatFilePermission r ''Read|Write|Edit'') (filesystem_rules ask config) @
           map formatBashPermission (command_rules ask config) \<and>
         map Inr (or_empty (allow p)) =
           map (\<lambda>r. formatFilePermission r ''Read|Write|Edit'') (filesystem_rules allow config) @
           map formatBashPermission (command_rules allow config) \<and>
         (deny p = None \<longleftrightarrow>
            filesystem_rules deny config = [] \<and> command_rules deny config = []) \<and>
         (ask p = None \<longleftrightarrow>
            filesystem_rules ask config = [] \<and> command_rules ask config = []) \<and>
         (allow p = None \<longleftrightarrow>
            filesystem_rules allow config = [] \<and> command_rules allow config = [])"
proof -
  from assms obtain q where
    q: "push_scope (\<lambda>r. formatFilePermission r ''Read|Write|Edit'')
          (Option.bind (permissions config) filesystem)
          \<lparr>deny = None, ask = None, allow = None\<rparr> = Inr q" and
    p: "push_scope formatBashPermission (Option.bind (permissions config) commands) q = Inr p"
    by (auto simp: generatePermissions_def and_then_Inr)
  from push_scope_Inr [OF q] push_scope_Inr [OF p]
  show ?thesis
    by (simp add: filesystem_rules_def command_rules_def or_empty_def)
qed

lemma formatFilePermission_Inr:
  "formatFilePermission r tools = Inr s \<longleftrightarrow>
     (\<exists>g. path r = Some g \<and> g \<noteq> [] \<and> s = tools @ ''('' @ g @ '')'')"
  by (auto simp: formatFilePermission_def truthy_string_def split: option.splits)

lemma formatFilePermission_Inl:
  "formatFilePermission r tools = Inl e \<longleftrightarrow>
     (path r = None \<or> path r = Some []) \<and> e = ''Filesystem permission rule must have a path''"
  by (auto simp: formatFilePermission_def truthy_string_def split: option.splits)

lemma formatBashPermission_Inr:
  "formatBashPermission r = Inr s \<longleftrightarrow>
     (\<exists>g. pattern r = Some g \<and> g \<noteq> [] \<and> s = ''Bash('' @ g @ '')'')"
  by (auto simp: formatBashPermission_def truthy_string_def split: option.splits)

lemma formatBashPermission_Inl:
  "formatBashPermission r = Inl e \<longleftrightarrow>
     (pattern r = None \<or> pattern r = Some []) \<and> e = ''Command permission rule must have a pattern''"
  by (auto simp: formatBashPermission_def truthy_string_def split: option.splits)

lemma generate_permissions:
  assumes "SettingsGenerator_generate config = Inr s"
  shows "(permissions config = None \<and> settings_permissions s = None) \<or>
         (\<exists>p. permissions config \<noteq> None \<and> generatePermissions config = Inr p \<and>
              settings_permissions s = Some p)"
  using assms
  by (cases "permissions config")
     (auto simp: SettingsGenerator_generate_def and_then_Inr Let_def)

lemma descriptor_rules_Inr:
  assumes "SettingsGenerator_generate config = Inr s"
  shows "map Inr (descriptor_rules deny s) =
           map (\<lambda>r. formatFilePermission r ''Read|Write|Edit'') (filesystem_rules deny config) @
           map formatBashPermission (command_rules deny config) \<and>
         map Inr (descriptor_rules ask s) =
           map (\<lambda>r. formatFilePermission r ''Read|Write|Edit'') (filesystem_rules ask config) @
           map formatBashPermission (command_rules ask config) \<and>
         map Inr (descriptor_rules allow s) =
           map (\<lambda>r. formatFilePermission r ''Read|Write|Edit'') (filesystem_rules allow config) @
           map formatBashPermission (command_rules allow config)"
proof -
  from generate_permissions [OF assms] show ?thesis
  proof
    assume "permissions config = None \<and> settings_permissions s = None"
    then show ?thesis
      by (simp add: descriptor_rules_def filesystem_rules_def command_rules_def or_empty_def)
  next
    assume "\<exists>p. permissions config \<noteq> None \<and> generatePermissions config = Inr p \<and>
              settings_permissions s = Some p"
    then obtain p where p: "generatePermissions config = Inr p" "settings_permissions s = Some p"
      by blast
    from generatePermissions_Inr [OF p(1)] p(2) show ?thesis
      by (simp add: descriptor_rules_def)
  qed
qed

lemma descriptor_rules_absent:
  assumes "SettingsGenerator_generate config = Inr s"
  shows "(Option.bind (settings_permissions s) deny = None \<longleftrightarrow>
            filesystem_rules deny config = [] \<and> command_rules deny config = []) \<and>
         (Option.bind (settings_permissions s) ask = None \<longleftrightarrow>
            filesystem_rules ask config = [] \<and> command_rules ask config = []) \<and>
         (Option.bind (settings_permissions s) allow = None \<longleftrightarrow>
            filesystem_rules allow config = [] \<and> command_rules allow config = [])"
proof -
  from generate_permissions [OF assms] show ?thesis
  proof
    assume "permissions config = None \<and> settings_permissions s = None"
    then show ?thesis
      by (simp add: filesystem_rules_def command_rules_def or_empty_def)
  next
    assume "\<exists>p. permissions config \<noteq> None \<and> generatePermissions config = Inr p \<and>
              settings_permissions s = Some p"
    then obtain p where p: "generatePermissions config = Inr p" "settings_permissions s = Some p"
      by blast
    from generatePermissions_Inr [OF p(1)] p(2) show ?thesis
      by simp
  qed
qed

lemma push_rules_Inl:
  "push_rules fmt rules cur = Inl e \<Longrightarrow> \<exists>r \<in> set (or_empty rules). fmt r = Inl e"
  by (auto simp: push_rules_def or_empty_def and_then_Inl dest: map_result_Inl
           split: option.splits if_splits)

lemma push_scope_Inl:
  assumes "push_scope fmt scope perms = Inl e"
  shows "\<exists>r \<in> set (or_empty (Option.bind scope deny)) \<union> set (or_empty (Option.bind scope ask)) \<union>
               set (or_empty (Option.bind scope allow)). fmt r = Inl e"
proof (cases scope)
  case None
  with assms show ?thesis by (simp add: push_scope_def)
next
  case (Some s)
  with assms have
    "push_rules fmt (deny s) (deny perms) = Inl e \<or>
     (\<exists>d. push_rules fmt (ask s) (ask perms) = Inl e) \<or>
     (\<exists>d. push_rules fmt (allow s) (allow perms) = Inl e)"
    by (auto simp: push_scope_def and_then_Inl)
  with Some show ?thesis
    by (auto dest!: push_rules_Inl)
qed

lemma generatePermissions_Inl:
  assumes "generatePermissions config = Inl e"
  shows "(\<exists>r \<in> set (all_filesystem_rules config).
            formatFilePermission r ''Read|Write|Edit'' = Inl e) \<or>
         (\<exists>r \<in> set (all_command_rules config). formatBashPermission r = Inl e)"
proof -
  from assms have
    "push_scope (\<lambda>r. formatFilePermission r ''Read|Write|Edit'')
       (Option.bind (permissions config) filesystem)
       \<lparr>deny = None, ask = None, allow = None\<rparr> = Inl e \<or>
     (\<exists>q. push_scope formatBashPermission (Option.bind (permissions config) commands) q = Inl e)"
    by (auto simp: generatePermissions_def and_then_Inl)
  then show ?thesis
  proof
    assume "push_scope (\<lambda>r. formatFilePermission r ''Read|Write|Edit'')
       (Option.bind (permissions config) filesystem)
       \<lparr>deny = None, ask = None, allow = None\<rparr> = Inl e"
    from push_scope_Inl [OF this] show ?thesis
      by (auto simp: all_filesystem_rules_def filesystem_rules_def)
  next
    assume "\<exists>q. push_scope formatBashPermission (Option.bind (permissions config) commands) q = Inl e"
    then obtain q where
      "push_scope formatBashPermission (Option.bind (permissions config) commands) q = Inl e" ..
    from push_scope_Inl [OF this] show ?thesis
      by (auto simp: all_command_rules_def command_rules_def)
  qed
qed

lemma generate_Inl:
  assumes "SettingsGenerator_generate config = Inl e"
  shows "generatePermissions config = Inl e"
  using assms
  by (cases "permissions config")
     (auto simp: SettingsGenerator_generate_def and_then_Inl Let_def)

lemma generate_succeeds_iff:
  "(\<exists>s. SettingsGenerator_generate config = Inr s) \<longleftrightarrow>
     (\<forall>r \<in> set (all_filesystem_rules config). \<exists>g. path r = Some g \<and> g \<noteq> []) \<and>
     (\<forall>r \<in> set (all_command_rules config). \<exists>g. pattern r = Some g \<and> g \<noteq> [])"
proof
  assume "\<exists>s. SettingsGenerator_generate config = Inr s"
  then obtain s where s: "SettingsGenerator_generate config = Inr s" ..
  have fs_ok: "\<exists>g. path r = Some g \<and> g \<noteq> []"
    if "Inr x = formatFilePermission r ''Read|Write|Edit''" for r x
    using that [symmetric] by (auto simp: formatFilePermission_Inr)
  have cmd_ok: "\<exists>g. pattern r = Some g \<and> g \<noteq> []"
    if "Inr x = formatBashPermission r" for r x
    using that [symmetric] by (auto simp: formatBashPermission_Inr)
  have split: "(\<forall>r \<in> set xs. \<exists>y. Inr y = f r) \<and> (\<forall>r \<in> set zs. \<exists>y. Inr y = g r)"
    if "map Inr ys = map f xs @ map g zs" for ys :: "string list" and f g and xs zs :: "PermissionRule list"
  proof -
    have "set (map f xs @ map g zs) \<subseteq> range Inr"
      using that [symmetric] by auto
    then show ?thesis by auto
  qed
  from descriptor_rules_Inr [OF s]
  have "(\<forall>r \<in> set (filesystem_rules deny config). \<exists>y. Inr y = formatFilePermission r ''Read|Write|Edit'') \<and>
        (\<forall>r \<in> set (command_rules deny config). \<exists>y. Inr y = formatBashPermission r)"
       "(\<forall>r \<in> set (filesystem_rules ask config). \<exists>y. Inr y = formatFilePermission r ''Read|Write|Edit'') \<and>
        (\<forall>r \<in> set (command_rules ask config). \<exists>y. Inr y = formatBashPermission r)"
       "(\<forall>r \<in> set (filesystem_rules allow config). \<exists>y. Inr y = formatFilePermission r ''Read|Write|Edit'') \<and>
        (\<forall>r \<in> set (command_rules allow config). \<exists>y. Inr y = formatBashPermission r)"
    by (blast dest: split)+
  then show "(\<forall>r \<in> set (all_filesystem_rules config). \<exists>g. path r = Some g \<and> g \<noteq> []) \<and>
     (\<forall>r \<in> set (all_command_rules config). \<exists>g. pattern r = Some g \<and> g \<noteq> [])"
    unfolding all_filesystem_rules_def all_command_rules_def
    by (auto dest: fs_ok cmd_ok)
next
  assume ok: "(\<forall>r \<in> set (all_filesystem_rules config). \<exists>g. path r = Some g \<and> g \<noteq> []) \<and>
     (\<forall>r \<in> set (all_command_rules config). \<exists>g. pattern r = Some g \<and> g \<noteq> [])"
  show "\<exists>s. SettingsGenerator_generate config = Inr s"
  proof (cases "SettingsGenerator_generate config")
    case (Inl e)
    from generatePermissions_Inl [OF generate_Inl [OF Inl]] ok show ?thesis
      by (auto simp: formatFilePermission_Inl formatBashPermission_Inl)
  next
    case (Inr s)
    then show ?thesis by blast
  qed
qed

lemma hookEvent_PreToolUse: "hookEvent gate = ''PreToolUse''"
  by (simp add: hookEvent_def split: option.splits)

lemma fold_record_push:
  "fold (\<lambda>g hs. record_push k (f g) hs) gs [(k, vs)] = [(k, vs @ map f gs)]"
  by (induction gs arbitrary: vs) simp_all

lemma generateHooksConfig_eq:
  "generateHooksConfig config =
     (case approval_gates config of
        None \<Rightarrow> []
      | Some gs \<Rightarrow> if gs = [] then [] else [(''PreToolUse'', map gate_binding gs)])"
proof (cases "approval_gates config")
  case None
  then show ?thesis by (simp add: generateHooksConfig_def)
next
  case (Some gs)
  show ?thesis
  proof (cases gs)
    case Nil
    with Some show ?thesis by (simp add: generateHooksConfig_def)
  next
    case (Cons g rest)
    have "fold (\<lambda>gate hs. record_push ''PreToolUse'' (gate_binding gate) hs) (g # rest) [] =
          [(''PreToolUse'', [gate_binding g] @ map gate_binding rest)]"
      using fold_record_push [of "''PreToolUse''" gate_binding rest "[gate_binding g]"]
      by simp
    with Some Cons show ?thesis
      by (simp add: generateHooksConfig_def hookEvent_PreToolUse)
  qed
qed

lemma generate_hooks:
  assumes "SettingsGenerator_generate config = Inr s"
  shows "settings_hooks s =
           (case approval_gates config of
              None \<Rightarrow> None
            | Some gs \<Rightarrow> if gs = [] then None else Some [(''PreToolUse'', map gate_binding gs)])"
  using assms
  by (cases "permissions config")
     (auto simp: SettingsGenerator_generate_def and_then_Inr Let_def generateHooksConfig_eq
           split: option.splits)

lemma gates_loop_iff: "gates_loop gs \<longleftrightarrow> (\<exists>g \<in> set gs. infra_gate g)"
  by (induction gs) auto

lemma infra_gate_iff:
  "infra_gate g \<longleftrightarrow>
     (\<exists>p. path_pattern (trigger g) = Some p \<and> (sublist ''.tf'' p \<or> sublist ''infrastructure/'' p))"
  by (auto simp: infra_gate_def split: option.splits)

lemma join_Cons: "ys \<noteq> [] \<Longrightarrow> join sep (x # ys) = x @ sep @ join sep ys"
  by (cases ys) simp_all

lemma join_append:
  "xs \<noteq> [] \<Longrightarrow> ys \<noteq> [] \<Longrightarrow> join sep (xs @ ys) = join sep xs @ sep @ join sep ys"
proof (induction xs)
  case Nil
  then show ?case by simp
next
  case (Cons x xs)
  then show ?case
    by (cases "xs = []") (simp_all add: join_Cons)
qed

lemma join_inner:
  assumes "ps \<noteq> []" and "ls \<noteq> []"
  shows "sublist (sep @ join sep ls) (join sep (ps @ ls @ ss))"
proof (cases "ss = []")
  case True
  with assms have "join sep (ps @ ls @ ss) = join sep ps @ (sep @ join sep ls)"
    by (simp add: join_append)
  then show ?thesis by simp
next
  case False
  with assms have "join sep (ps @ ls @ ss) = join sep ps @ (sep @ join sep ls) @ (sep @ join sep ss)"
    by (simp add: join_append)
  then show ?thesis
    using sublist_appendI by metis
qed

lemma validation_lines_split:
  assumes "errors error = Some issues" and "e \<in> set issues"
  shows "\<exists>ps ss. ps \<noteq> [] \<and> validation_lines error source = ps @ issue_lines e @ ss"
proof -
  from assms(2) obtain as bs where "issues = as @ e # bs"
    by (auto dest: split_list)
  with assms(1) have "validation_lines error source =
      ((''Validation errors in '' @ source @ '':'') # concat (map issue_lines as)) @
      issue_lines e @ concat (map issue_lines bs)"
    by (simp add: validation_lines_def)
  then show ?thesis by blast
qed

lemma report_holds_issue_lines:
  assumes "errors error = Some issues" and "e \<in> set issues"
  shows "sublist (''\<newline>'' @ join ''\<newline>'' (issue_lines e)) (formatValidationError error source)"
proof -
  from validation_lines_split [OF assms] obtain ps ss where
    ps: "ps \<noteq> []" and eq: "validation_lines error source = ps @ issue_lines e @ ss"
    by blast
  have ne: "issue_lines e \<noteq> []" by (simp add: issue_lines_def)
  from join_inner [OF ps ne, of "''\<newline>''" ss] eq show ?thesis
    by (simp add: formatValidationError_def)
qed

lemma join_head: "\<exists>t. join sep (x # rest) = x @ t"
  by (cases rest) simp_all

lemma sublist_prefix_part: "sublist (xs @ ys) zs \<Longrightarrow> sublist xs zs"
  by (auto simp: sublist_def)

lemma bullet_lines:
  "filter (prefix ''  - '') (concat (map issue_lines issues)) = map issue_line issues"
  by (induction issues) (simp_all add: issue_lines_def issue_line_def hint_line_def)

text \<open>Evaluation of the example documents.\<close>

lemmas settings_defs =
  SettingsGenerator_generate_def generatePermissions_def push_scope_def push_rules_def
  and_then_def or_empty_def formatFilePermission_def formatBashPermission_def
  truthy_string_def truthy_number_def generateHooksConfig_def hookEvent_def gate_binding_def
  gate_matcher_def hookConfig_def minimal_config_def

lemma readme_generates: "SettingsGenerator_generate readme_config = Inr readme_settings"
  by (simp add: settings_defs readme_config_def readme_settings_def)

lemma gates_generates: "SettingsGenerator_generate gates_config = Inr gates_settings"
  by (simp add: settings_defs gates_config_def gates_settings_def tool_gate_def path_gate_def
        empty_tool_gate_def)

lemma empty_path_fails:
  "SettingsGenerator_generate empty_path_config = Inl ''Filesystem permission rule must have a path''"
  by (simp add: settings_defs empty_path_config_def)

lemma no_path_fails:
  "SettingsGenerator_generate no_path_config = Inl ''Filesystem permission rule must have a path''"
  by (simp add: settings_defs no_path_config_def)

lemma infrastructure_pattern: "sublist ''infrastructure/'' ''infrastructure/**''"
  by (rule prefix_imp_sublist) simp

lemma violation_leaf:
  "violation ZString v p \<longleftrightarrow> p = [] \<and> mismatch ZString v"
  "violation ZNumber v p \<longleftrightarrow> p = [] \<and> mismatch ZNumber v"
  "violation ZBoolean v p \<longleftrightarrow> p = [] \<and> mismatch ZBoolean v"
  "violation ZAny v p \<longleftrightarrow> False"
  "violation (ZEnum opts) v p \<longleftrightarrow> p = [] \<and> mismatch (ZEnum opts) v"
  by (auto elim: violation.cases intro: violation.intros)

lemma violation_array:
  "violation (ZArray S) v q \<longleftrightarrow>
     (q = [] \<and> mismatch (ZArray S) v) \<or>
     (\<exists>xs i p. v = Some (JArr xs) \<and> q = Num i # p \<and> i < length xs \<and>
        violation S (Some (xs ! i)) p)"
  by (auto elim: violation.cases intro: violation.intros)

lemma violation_record:
  "violation (ZRecord S) v q \<longleftrightarrow>
     (q = [] \<and> mismatch (ZRecord S) v) \<or>
     (\<exists>kvs k x p. v = Some (JObj kvs) \<and> q = Str k # p \<and> (k, x) \<in> set kvs \<and>
        violation S (Some x) p)"
  by (auto elim: violation.cases intro: violation.intros)

lemma violation_object:
  "violation (ZObject shape) v q \<longleftrightarrow>
     (q = [] \<and> mismatch (ZObject shape) v) \<or>
     (\<exists>kvs k S p. v = Some (JObj kvs) \<and> q = Str k # p \<and> (k, S) \<in> set shape \<and>
        violation S (map_of kvs k) p)"
  by (auto elim: violation.cases intro: violation.intros)

lemma violation_optional:
  "violation (ZOptional S) v q \<longleftrightarrow> (\<exists>x. v = Some x \<and> violation S v q)"
proof
  assume "violation (ZOptional S) v q"
  then show "\<exists>x. v = Some x \<and> violation S v q"
    by (cases rule: violation.cases) (auto intro: violation.intros split: option.splits)
next
  assume "\<exists>x. v = Some x \<and> violation S v q"
  then show "violation (ZOptional S) v q"
    by (auto intro: violation.intros)
qed

lemma in_enumerate: "ix \<in> set (enumerate 0 xs) \<longleftrightarrow> fst ix < length xs \<and> snd ix = xs ! fst ix"
  by (cases ix) (auto simp: in_set_enumerate_eq)

lemma check_leaf:
  "check m ZString p v = (if mismatch ZString v then [invalid_type m ''string'' p v] else [])"
  "check m ZNumber p v = (if mismatch ZNumber v then [invalid_type m ''number'' p v] else [])"
  "check m ZBoolean p v = (if mismatch ZBoolean v then [invalid_type m ''boolean'' p v] else [])"
  by (simp_all split: option.splits json.splits)

lemma issue_path_simps [simp]:
  "issue_path (invalid_type m e p v) = p"
  "issue_path (invalid_enum_value m opts p v) = p"
  by (simp_all add: invalid_type_def invalid_enum_value_def)

lemma check_enum_paths:
  "map issue_path (check m (ZEnum opts) p v) = (if mismatch (ZEnum opts) v then [p] else [])"
  by (simp split: option.splits json.splits)

lemma check_container_mismatch:
  "mismatch (ZArray item) v \<Longrightarrow> check m (ZArray item) p v = [invalid_type m ''array'' p v]"
  "mismatch (ZRecord val) v \<Longrightarrow> check m (ZRecord val) p v = [invalid_type m ''object'' p v]"
  "mismatch (ZObject shape) v \<Longrightarrow> check m (ZObject shape) p v = [invalid_type m ''object'' p v]"
  by (simp_all split: option.splits json.splits)

lemma mismatch_container:
  "mismatch (ZArray item) v \<longleftrightarrow> (\<nexists>xs. v = Some (JArr xs))"
  "mismatch (ZRecord val) v \<longleftrightarrow> (\<nexists>kvs. v = Some (JObj kvs))"
  "mismatch (ZObject shape) v \<longleftrightarrow> (\<nexists>kvs. v = Some (JObj kvs))"
  by (simp_all split: option.splits json.splits)

lemma check_paths:
  "set (map issue_path (check m S pre v)) = {pre @ p |p. violation S v p}"
proof (induction m S pre v rule: check.induct)
  case (1 m p v)
  show ?case unfolding check_leaf
    by (cases "mismatch ZString v") (simp_all add: violation_leaf del: mismatch.simps)
next
  case (2 m p v)
  show ?case unfolding check_leaf
    by (cases "mismatch ZNumber v") (simp_all add: violation_leaf del: mismatch.simps)
next
  case (3 m p v)
  show ?case unfolding check_leaf
    by (cases "mismatch ZBoolean v") (simp_all add: violation_leaf del: mismatch.simps)
next
  case (4 m p v)
  show ?case by (simp add: violation_leaf)
next
  case (5 m opts p v)
  show ?case unfolding check_enum_paths
    by (cases "mismatch (ZEnum opts) v") (simp_all add: violation_leaf del: mismatch.simps)
next
  case (6 m item p v)
  show ?case
  proof (cases "mismatch (ZArray item) v")
    case True
    then have "\<And>q. violation (ZArray item) v q \<longleftrightarrow> q = []"
      by (auto simp: violation_array mismatch_container)
    with check_container_mismatch(1) [OF True, of m p] show ?thesis
      by (simp del: check.simps mismatch.simps)
  next
    case False
    then obtain xs where v: "v = Some (JArr xs)" unfolding mismatch_container by blast
    have ih: "set (map issue_path (check m item (p @ [Num i]) (Some (xs ! i)))) =
              {(p @ [Num i]) @ q |q. violation item (Some (xs ! i)) q}"
      if "i < length xs" for i
      using "6.IH" [OF v refl, of "(i, xs ! i)"] that by (simp add: in_enumerate)
    have viol: "violation (ZArray item) v q \<longleftrightarrow>
        (\<exists>i r. q = Num i # r \<and> i < length xs \<and> violation item (Some (xs ! i)) r)" for q
      using v by (simp add: violation_array)
    have en: "set (enumerate 0 xs) = (\<lambda>i. (i, xs ! i)) ` {..<length xs}"
      by (auto simp: in_enumerate image_iff)
    have "set (map issue_path (check m (ZArray item) p v)) =
          (\<Union>i \<in> {..<length xs}. set (map issue_path (check m item (p @ [Num i]) (Some (xs ! i)))))"
      using v by (simp add: en image_UN)
    also have "\<dots> = (\<Union>i \<in> {..<length xs}. {(p @ [Num i]) @ q |q. violation item (Some (xs ! i)) q})"
      using ih by simp
    also have "\<dots> = {p @ q |q. violation (ZArray item) v q}"
      unfolding viol by auto
    finally show ?thesis .
  qed
next
  case (7 m val p v)
  show ?case
  proof (cases "mismatch (ZRecord val) v")
    case True
    then have "\<And>q. violation (ZRecord val) v q \<longleftrightarrow> q = []"
      by (auto simp: violation_record mismatch_container)
    with check_container_mismatch(2) [OF True, of m p] show ?thesis
      by (simp del: check.simps mismatch.simps)
  next
    case False
    then obtain kvs where v: "v = Some (JObj kvs)" unfolding mismatch_container by blast
    have ih: "set (map issue_path (check m val (p @ [Str (fst kv)]) (Some (snd kv)))) =
              {(p @ [Str (fst kv)]) @ q |q. violation val (Some (snd kv)) q}"
      if "kv \<in> set kvs" for kv
      using "7.IH" [OF v refl that] .
    have viol: "violation (ZRecord val) v q \<longleftrightarrow>
        (\<exists>kv r. q = Str (fst kv) # r \<and> kv \<in> set kvs \<and> violation val (Some (snd kv)) r)" for q
      using v by (auto simp: violation_record)
    have "set (map issue_path (check m (ZRecord val) p v)) =
          (\<Union>kv \<in> set kvs. set (map issue_path (check m val (p @ [Str (fst kv)]) (Some (snd kv)))))"
      using v by (simp add: image_UN)
    also have "\<dots> = (\<Union>kv \<in> set kvs. {(p @ [Str (fst kv)]) @ q |q. violation val (Some (snd kv)) q})"
      using ih by simp
    also have "\<dots> = {p @ q |q. violation (ZRecord val) v q}"
      unfolding viol by auto
    finally show ?thesis .
  qed
next
  case (8 m shape p v)
  show ?case
  proof (cases "mismatch (ZObject shape) v")
    case True
    then have "\<And>q. violation (ZObject shape) v q \<longleftrightarrow> q = []"
      by (auto simp: violation_object mismatch_container)
    with check_container_mismatch(3) [OF True, of m p] show ?thesis
      by (simp del: check.simps mismatch.simps)
  next
    case False
    then obtain kvs where v: "v = Some (JObj kvs)" unfolding mismatch_container by blast
    have ih: "set (map issue_path (check m (snd ks) (p @ [Str (fst ks)]) (map_of kvs (fst ks)))) =
              {(p @ [Str (fst ks)]) @ q |q. violation (snd ks) (map_of kvs (fst ks)) q}"
      if "ks \<in> set shape" for ks
      using "8.IH" [OF v refl that] .
    have viol: "violation (ZObject shape) v q \<longleftrightarrow>
        (\<exists>ks r. q = Str (fst ks) # r \<and> ks \<in> set shape \<and>
           violation (snd ks) (map_of kvs (fst ks)) r)" for q
      using v by (auto simp: violation_object)
    have "set (map issue_path (check m (ZObject shape) p v)) =
          (\<Union>ks \<in> set shape.
             set (map issue_path (check m (snd ks) (p @ [Str (fst ks)]) (map_of kvs (fst ks)))))"
      using v by (simp add: image_UN)
    also have "\<dots> = (\<Union>ks \<in> set shape.
             {(p @ [Str (fst ks)]) @ q |q. violation (snd ks) (map_of kvs (fst ks)) q})"
      using ih by simp
    also have "\<dots> = {p @ q |q. violation (ZObject shape) v q}"
      unfolding viol by auto
    finally show ?thesis .
  qed
next
  case (9 m inner p v)
  show ?case
  proof (cases v)
    case None
    then show ?thesis by (simp add: violation_optional)
  next
    case (Some x)
    with "9.IH" [OF Some] show ?thesis by (simp add: violation_optional)
  qed
qed

lemmas schema_defs =
  GovernanceSchema_def PermissionsSchema_def FilesystemPermissionsSchema_def
  CommandPermissionsSchema_def NetworkPermissionsSchema_def PermissionRuleSchema_def
  SecretsSchema_def SecretPatternSchema_def ApprovalGateSchema_def ApprovalGateActionSchema_def
  ApprovalGateTriggerSchema_def AuditSchema_def SandboxSchema_def ComplianceControlSchema_def
  ComplianceFrameworkSchema_def RoleSchema_def OperationalSchema_def RequiredTestSchema_def
  TestingSchema_def CostControlSchema_def









lemma parse_fails:
  assumes "yaml_load ps content = Inr doc"
    and "check (error_map ps) GovernanceSchema [] doc = issues"
    and "issues \<noteq> []"
  shows "parseString ps content source =
           Inl (formatValidationError
                  \<lparr>errors = Some issues, message = error_text ps issues\<rparr> source)"
  using assms by (simp add: parseString_def GovernanceSchema_parse_def Let_def)

lemma report_holds_bullet:
  assumes "errors error = Some issues" and "e \<in> set issues"
  shows "sublist (''\<newline>'' @ issue_line e) (formatValidationError error source)"
proof -
  obtain t where "join ''\<newline>'' (issue_lines e) = issue_line e @ t"
    using join_head [of "''\<newline>''" "issue_line e"] by (auto simp: issue_lines_def)
  with report_holds_issue_lines [OF assms, of source]
  have "sublist ((''\<newline>'' @ issue_line e) @ t) (formatValidationError error source)"
    by simp
  then show ?thesis by (rule sublist_prefix_part)
qed

lemma bad_issues:
  "check default_error_map GovernanceSchema [] (Some bad_doc) =
     [\<lparr>issue_code = ''invalid_type'', issue_path = [Str ''version''],
       issue_message = ''Required'', issue_options = []\<rparr>,
      \<lparr>issue_code = ''invalid_type'', issue_path = [Str ''project''],
       issue_message = ''Expected string, received number'', issue_options = []\<rparr>,
      \<lparr>issue_code = ''invalid_enum_value'',
       issue_path = [Str ''approval_gates'', Num 0, Str ''action'', Str ''type''],
       issue_message = ''Invalid enum value. Expected '' @
                       joinValues [''command'', ''prompt'', ''agent''] @ '', received '' @
                       [CHR 0x27] @ ''shell'' @ [CHR 0x27],
       issue_options = [Str ''command'', Str ''prompt'', Str ''agent'']\<rparr>,
      \<lparr>issue_code = ''invalid_type'',
       issue_path = [Str ''approval_gates'', Num 0, Str ''action'', Str ''timeout''],
       issue_message = ''Expected number, received string'', issue_options = []\<rparr>]"
  by (simp add: schema_defs bad_doc_def invalid_type_def invalid_enum_value_def
        default_error_map_def kind_name_def enumerate_eq_zip)

lemma bad_report:
  "parseString (tree_parsers bad_doc) content ''governance.yaml'' =
     Inl (''Validation errors in governance.yaml:\<newline>'' @
          ''  - version: Required\<newline>'' @
          ''  - project: Expected string, received number\<newline>'' @
          ''  - approval_gates.0.action.type: Invalid enum value. '' @
          ''Expected 'command' | 'prompt' | 'agent', received 'shell'\<newline>'' @
          ''    Allowed values: command, prompt, agent\<newline>'' @
          ''  - approval_gates.0.action.timeout: Expected number, received string'')"
  by (simp add: parseString_def GovernanceSchema_parse_def tree_parsers_def bad_issues
        formatValidationError_def validation_lines_def issue_lines_def issue_line_def
        hint_line_def digit_def joinValues_def)




lemma bad_violations:
  "violation GovernanceSchema (Some bad_doc) [Str ''version''] \<and>
   violation GovernanceSchema (Some bad_doc) [Str ''project''] \<and>
   violation GovernanceSchema (Some bad_doc)
     [Str ''approval_gates'', Num 0, Str ''action'', Str ''type''] \<and>
   violation GovernanceSchema (Some bad_doc)
     [Str ''approval_gates'', Num 0, Str ''action'', Str ''timeout'']"
  using check_paths [of default_error_map GovernanceSchema "[]" "Some bad_doc"]
  unfolding bad_issues by auto

lemma generateFiles_Inr:
  "generateFiles ext config dir = Inr l \<longleftrightarrow>
     (\<exists>s hs c. SettingsGenerator_generate config = Inr s \<and>
               hooks_generate ext config = Inr hs \<and>
               workflow_template ext (workflow_data config) = Inr c \<and>
               l = [\<lparr>file_path = ''.claude/settings.json'',
                     file_content = json_stringify ext s, executable = None\<rparr>] @
                   map hook_file hs @
                   [\<lparr>file_path = ''.github/workflows/governance.yml'', file_content = c,
                     executable = None\<rparr>,
                    \<lparr>file_path = ''GOVERNANCE.md'',
                     file_content = generateDocumentation config, executable = None\<rparr>])"
  by (auto simp: generateFiles_def WorkflowGenerator_generate_def and_then_Inr)

lemma inj_hook_file: "inj hook_file"
proof (rule injI)
  fix x y :: GeneratedHook
  assume "hook_file x = hook_file y"
  then show "x = y" by (cases x, cases y) (simp add: hook_file_def)
qed

lemma compile_success_result:
  assumes "success (fst (compile fs ps ms governancePath outputDir disk))"
  shows "\<exists>config fls. parseFile fs ps disk governancePath = Inr config \<and>
           generateFiles (run_externals fs ms disk) config outputDir = Inr fls \<and>
           fst (compile fs ps ms governancePath outputDir disk) =
             \<lparr>success = True, files = fls, result_errors = None\<rparr>"
  using assms
  by (auto simp: compile_def failure_def split: sum.splits prod.splits option.splits)

lemma compile_result:
  assumes "parseFile fs ps disk governancePath = Inr config"
    and "generateFiles (run_externals fs ms disk) config outputDir = Inr fls"
    and "fst (writeFiles fs fls outputDir disk) = None"
  shows "fst (compile fs ps ms governancePath outputDir disk) =
           \<lparr>success = True, files = fls, result_errors = None\<rparr>"
proof (cases "writeFiles fs fls outputDir disk")
  case (Pair e disk')
  with assms(3) have "e = None" by simp
  with Pair assms(1,2) show ?thesis
    by (simp add: compile_def)
qed

lemma memory_writes: "fst (writeFiles memory_fs fls baseDir disk) = None"
  by (induction fls arbitrary: disk) (simp_all add: memory_fs_def Let_def)

lemma lists_differ_iff:
  assumes "generateFiles ext1 config dir1 = Inr l1"
    and "generateFiles ext2 config dir2 = Inr l2"
  shows "l1 = l2 \<longleftrightarrow>
     (\<exists>s. SettingsGenerator_generate config = Inr s \<and>
          json_stringify ext1 s = json_stringify ext2 s) \<and>
     hooks_generate ext1 config = hooks_generate ext2 config \<and>
     workflow_template ext1 (workflow_data config) =
       workflow_template ext2 (workflow_data config)"
proof -
  from assms(1) obtain s hs1 c1 where
    s: "SettingsGenerator_generate config = Inr s" and
    h1: "hooks_generate ext1 config = Inr hs1" and
    w1: "workflow_template ext1 (workflow_data config) = Inr c1" and
    l1: "l1 = [\<lparr>file_path = ''.claude/settings.json'',
                     file_content = json_stringify ext1 s, executable = None\<rparr>] @
                   map hook_file hs1 @
                   [\<lparr>file_path = ''.github/workflows/governance.yml'', file_content = c1,
                     executable = None\<rparr>,
                    \<lparr>file_path = ''GOVERNANCE.md'',
                     file_content = generateDocumentation config, executable = None\<rparr>]"
    unfolding generateFiles_Inr by blast
  from assms(2) s obtain hs2 c2 where
    h2: "hooks_generate ext2 config = Inr hs2" and
    w2: "workflow_template ext2 (workflow_data config) = Inr c2" and
    l2: "l2 = [\<lparr>file_path = ''.claude/settings.json'',
                     file_content = json_stringify ext2 s, executable = None\<rparr>] @
                   map hook_file hs2 @
                   [\<lparr>file_path = ''.github/workflows/governance.yml'', file_content = c2,
                     executable = None\<rparr>,
                    \<lparr>file_path = ''GOVERNANCE.md'',
                     file_content = generateDocumentation config, executable = None\<rparr>]"
    unfolding generateFiles_Inr by auto
  have "l1 = l2 \<longleftrightarrow>
        json_stringify ext1 s = json_stringify ext2 s \<and> map hook_file hs1 = map hook_file hs2 \<and>
        c1 = c2"
    unfolding l1 l2 by auto
  also have "map hook_file hs1 = map hook_file hs2 \<longleftrightarrow> hs1 = hs2"
    by (rule inj_map_eq_map [OF inj_hook_file])
  finally show ?thesis using s h1 h2 w1 w2 by simp
qed

lemma run_externals_agree:
  assumes "readFileSync fs1 disk1 (templatePath fs1 ms1) =
           readFileSync fs2 disk2 (templatePath fs2 ms2)"
    and "\<forall>t. readFileSync fs1 disk1 (templatePath fs1 ms1) = Inr t \<longrightarrow>
           handlebars_compile ms1 t (workflow_data config) =
           handlebars_compile ms2 t (workflow_data config)"
    and "\<forall>s. SettingsGenerator_generate config = Inr s \<longrightarrow> stringify ms1 s = stringify ms2 s"
    and "hooks_generator ms1 disk1 config = hooks_generator ms2 disk2 config"
  shows "generateFiles (run_externals fs1 ms1 disk1) config dir1 =
         generateFiles (run_externals fs2 ms2 disk2) config dir2"
proof -
  have t: "compiled_template fs1 ms1 disk1 (workflow_data config) =
           compiled_template fs2 ms2 disk2 (workflow_data config)"
  proof (cases "readFileSync fs2 disk2 (templatePath fs2 ms2)")
    case (Inl e)
    with assms(1) show ?thesis by (simp add: compiled_template_def and_then_def)
  next
    case (Inr x)
    with assms(1,2) show ?thesis by (simp add: compiled_template_def and_then_def)
  qed
  show ?thesis
  proof (cases "SettingsGenerator_generate config")
    case (Inl e)
    then show ?thesis by (simp add: generateFiles_def and_then_def)
  next
    case (Inr s)
    with assms(3) have "stringify ms1 s = stringify ms2 s" by simp
    with Inr t assms(4) show ?thesis
      by (simp add: generateFiles_def and_then_def run_externals_def
            WorkflowGenerator_generate_def split: sum.splits)
  qed
qed

lemma readme_tree_valid:
  "check m GovernanceSchema [] (Some (JObj [(''version'', JStr ''1.0''),
                                            (''project'', JStr ''my-app'')])) = []"
  by (simp add: schema_defs)

lemma readme_parses:
  "parseFile memory_fs readme_parsers (readme_disk other) ''governance.yaml'' = Inr readme_config"
  by (simp add: parseFile_def memory_fs_def readme_parsers_def readme_disk_def parseString_def
        and_then_def GovernanceSchema_parse_def readme_tree_valid)

lemma readme_template:
  "readFileSync memory_fs (readme_disk other) (templatePath memory_fs stub_modules) =
     Inr ''name: ''"
  by (simp add: memory_fs_def readme_disk_def templatePath_def templatesDir_def
        stub_modules_def)

lemma readme_files:
  "generateFiles (run_externals memory_fs stub_modules (readme_disk other)) readme_config dir =
     Inr [\<lparr>file_path = ''.claude/settings.json'', file_content = ''{}'', executable = None\<rparr>,
          \<lparr>file_path = ''.github/workflows/governance.yml'', file_content = ''name: my-app'',
           executable = None\<rparr>,
          \<lparr>file_path = ''GOVERNANCE.md'', file_content = generateDocumentation readme_config,
           executable = None\<rparr>]"
  by (simp add: generateFiles_def readme_generates and_then_def run_externals_def
        compiled_template_def readme_template WorkflowGenerator_generate_def workflow_data_def)
     (simp add: stub_modules_def readme_config_def minimal_config_def)

lemma readme_compiles:
  "fst (compile memory_fs readme_parsers stub_modules ''governance.yaml'' dir (readme_disk other)) =
     \<lparr>success = True,
      files =
        [\<lparr>file_path = ''.claude/settings.json'', file_content = ''{}'', executable = None\<rparr>,
         \<lparr>file_path = ''.github/workflows/governance.yml'', file_content = ''name: my-app'',
          executable = None\<rparr>,
         \<lparr>file_path = ''GOVERNANCE.md'', file_content = generateDocumentation readme_config,
          executable = None\<rparr>],
      result_errors = None\<rparr>"
  by (rule compile_result [OF readme_parses readme_files memory_writes])

section \<open>The claims\<close>

text \<open>
  Claim C1. Compilation is deterministic. Two runs of the compiler, each with its own
  disk, output directory and modules, that parse the same document give the same
  artifact list (the same paths, contents and executable flags in the same order)
  whenever what the runs take from outside the sources agrees: the template file they
  read, the engine on that template, \<^verbatim>\<open>JSON.stringify\<close> on the settings, and the scripts
  of the hook generator. Nothing else enters the list: two lists for one document are
  equal exactly when the stringified settings, the scripts and the rendered workflow
  are.
\<close>

theorem compilation_deterministic:
  "(parseFile fs1 ps1 disk1 path1 = Inr config \<and>
    parseFile fs2 ps2 disk2 path2 = Inr config \<and>
    readFileSync fs1 disk1 (templatePath fs1 ms1) =
      readFileSync fs2 disk2 (templatePath fs2 ms2) \<and>
    (\<forall>t. readFileSync fs1 disk1 (templatePath fs1 ms1) = Inr t \<longrightarrow>
       handlebars_compile ms1 t (workflow_data config) =
       handlebars_compile ms2 t (workflow_data config)) \<and>
    (\<forall>s. SettingsGenerator_generate config = Inr s \<longrightarrow> stringify ms1 s = stringify ms2 s) \<and>
    hooks_generator ms1 disk1 config = hooks_generator ms2 disk2 config \<longrightarrow>
      generateFiles (run_externals fs1 ms1 disk1) config dir1 =
      generateFiles (run_externals fs2 ms2 disk2) config dir2 \<and>
      preview fs1 ps1 ms1 path1 disk1 = preview fs2 ps2 ms2 path2 disk2 \<and>
      (success (fst (compile fs1 ps1 ms1 path1 dir1 disk1)) \<and>
       success (fst (compile fs2 ps2 ms2 path2 dir2 disk2)) \<longrightarrow>
         files (fst (compile fs1 ps1 ms1 path1 dir1 disk1)) =
         files (fst (compile fs2 ps2 ms2 path2 dir2 disk2)))) \<and>
   (generateFiles ext1 config dir1 = Inr l1 \<and> generateFiles ext2 config dir2 = Inr l2 \<longrightarrow>
      (l1 = l2 \<longleftrightarrow>
         (\<exists>s. SettingsGenerator_generate config = Inr s \<and>
              json_stringify ext1 s = json_stringify ext2 s) \<and>
         hooks_generate ext1 config = hooks_generate ext2 config \<and>
         workflow_template ext1 (workflow_data config) =
           workflow_template ext2 (workflow_data config)))"
proof (intro conjI impI)
  assume "generateFiles ext1 config dir1 = Inr l1 \<and> generateFiles ext2 config dir2 = Inr l2"
  then show "l1 = l2 \<longleftrightarrow>
         (\<exists>s. SettingsGenerator_generate config = Inr s \<and>
              json_stringify ext1 s = json_stringify ext2 s) \<and>
         hooks_generate ext1 config = hooks_generate ext2 config \<and>
         workflow_template ext1 (workflow_data config) =
           workflow_template ext2 (workflow_data config)"
    using lists_differ_iff by blast
next
  assume a: "parseFile fs1 ps1 disk1 path1 = Inr config \<and>
    parseFile fs2 ps2 disk2 path2 = Inr config \<and>
    readFileSync fs1 disk1 (templatePath fs1 ms1) =
      readFileSync fs2 disk2 (templatePath fs2 ms2) \<and>
    (\<forall>t. readFileSync fs1 disk1 (templatePath fs1 ms1) = Inr t \<longrightarrow>
       handlebars_compile ms1 t (workflow_data config) =
       handlebars_compile ms2 t (workflow_data config)) \<and>
    (\<forall>s. SettingsGenerator_generate config = Inr s \<longrightarrow> stringify ms1 s = stringify ms2 s) \<and>
    hooks_generator ms1 disk1 config = hooks_generator ms2 disk2 config"
  then have h1: "readFileSync fs1 disk1 (templatePath fs1 ms1) =
      readFileSync fs2 disk2 (templatePath fs2 ms2)"
    and h2: "\<forall>t. readFileSync fs1 disk1 (templatePath fs1 ms1) = Inr t \<longrightarrow>
       handlebars_compile ms1 t (workflow_data config) =
       handlebars_compile ms2 t (workflow_data config)"
    and h3: "\<forall>s. SettingsGenerator_generate config = Inr s \<longrightarrow> stringify ms1 s = stringify ms2 s"
    and h4: "hooks_generator ms1 disk1 config = hooks_generator ms2 disk2 config"
    by blast+
  have gen: "generateFiles (run_externals fs1 ms1 disk1) config dir =
      generateFiles (run_externals fs2 ms2 disk2) config dir'" for dir dir'
    by (rule run_externals_agree [OF h1 h2 h3 h4])
  from gen show "generateFiles (run_externals fs1 ms1 disk1) config dir1 =
      generateFiles (run_externals fs2 ms2 disk2) config dir2" .
  from a gen [of "''.''" "''.''"] show "preview fs1 ps1 ms1 path1 disk1 = preview fs2 ps2 ms2 path2 disk2"
    by (simp add: preview_def)
  assume ok: "success (fst (compile fs1 ps1 ms1 path1 dir1 disk1)) \<and>
       success (fst (compile fs2 ps2 ms2 path2 dir2 disk2))"
  from ok a compile_success_result [of fs1 ps1 ms1 path1 dir1 disk1]
  have 1: "generateFiles (run_externals fs1 ms1 disk1) config dir1 =
      Inr (files (fst (compile fs1 ps1 ms1 path1 dir1 disk1)))"
    by auto
  from ok a compile_success_result [of fs2 ps2 ms2 path2 dir2 disk2]
  have 2: "generateFiles (run_externals fs2 ms2 disk2) config dir2 =
      Inr (files (fst (compile fs2 ps2 ms2 path2 dir2 disk2)))"
    by auto
  from 1 2 gen [of dir1 dir2] show "files (fst (compile fs1 ps1 ms1 path1 dir1 disk1)) =
         files (fst (compile fs2 ps2 ms2 path2 dir2 disk2))"
    by simp
qed

theorem compilation_deterministic_witness:
  "readme_disk ''a'' \<noteq> readme_disk ''b'' \<and>
   parseFile memory_fs readme_parsers (readme_disk ''a'') ''governance.yaml'' =
     Inr readme_config \<and>
   parseFile memory_fs readme_parsers (readme_disk ''b'') ''governance.yaml'' =
     Inr readme_config \<and>
   readFileSync memory_fs (readme_disk ''a'') (templatePath memory_fs stub_modules) =
     readFileSync memory_fs (readme_disk ''b'') (templatePath memory_fs stub_modules) \<and>
   success (fst (compile memory_fs readme_parsers stub_modules ''governance.yaml'' ''out-a''
     (readme_disk ''a''))) \<and>
   success (fst (compile memory_fs readme_parsers stub_modules ''governance.yaml'' ''out-b''
     (readme_disk ''b''))) \<and>
   files (fst (compile memory_fs readme_parsers stub_modules ''governance.yaml'' ''out-a''
     (readme_disk ''a''))) =
   files (fst (compile memory_fs readme_parsers stub_modules ''governance.yaml'' ''out-b''
     (readme_disk ''b''))) \<and>
   map file_path (files (fst (compile memory_fs readme_parsers stub_modules
     ''governance.yaml'' ''out-a'' (readme_disk ''a'')))) =
     [''.claude/settings.json'', ''.github/workflows/governance.yml'', ''GOVERNANCE.md'']"
proof -
  have d: "readme_disk ''a'' \<noteq> readme_disk ''b''"
  proof
    assume "readme_disk ''a'' = readme_disk ''b''"
    then have "readme_disk ''a'' ''notes.txt'' = readme_disk ''b'' ''notes.txt''" by simp
    then show False by (simp add: readme_disk_def)
  qed
  from compilation_deterministic [of memory_fs readme_parsers "readme_disk ''a''"
      "''governance.yaml''" readme_config memory_fs readme_parsers "readme_disk ''b''"
      "''governance.yaml''" stub_modules stub_modules "''out-a''" "''out-b''"]
    readme_parses readme_template d
  show ?thesis by (simp add: readme_compiles)
qed

text \<open>
  Claim C2. In the generated settings each of the deny, ask and allow lists is the
  formatted filesystem rules of that list, in declaration order, followed by the
  formatted command rules of that list, in declaration order; a list is absent exactly
  when the document has no rule for it.
\<close>

theorem permission_lists_in_declaration_order:
  assumes "SettingsGenerator_generate config = Inr s"
  shows "map Inr (descriptor_rules deny s) =
           map (\<lambda>r. formatFilePermission r ''Read|Write|Edit'') (filesystem_rules deny config) @
           map formatBashPermission (command_rules deny config) \<and>
         map Inr (descriptor_rules ask s) =
           map (\<lambda>r. formatFilePermission r ''Read|Write|Edit'') (filesystem_rules ask config) @
           map formatBashPermission (command_rules ask config) \<and>
         map Inr (descriptor_rules allow s) =
           map (\<lambda>r. formatFilePermission r ''Read|Write|Edit'') (filesystem_rules allow config) @
           map formatBashPermission (command_rules allow config) \<and>
         (Option.bind (settings_permissions s) deny = None \<longleftrightarrow>
            filesystem_rules deny config = [] \<and> command_rules deny config = []) \<and>
         (Option.bind (settings_permissions s) ask = None \<longleftrightarrow>
            filesystem_rules ask config = [] \<and> command_rules ask config = []) \<and>
         (Option.bind (settings_permissions s) allow = None \<longleftrightarrow>
            filesystem_rules allow config = [] \<and> command_rules allow config = [])"
  using descriptor_rules_Inr [OF assms] descriptor_rules_absent [OF assms]
  by (simp only: simp_thms)

theorem permission_lists_in_declaration_order_witness:
  "SettingsGenerator_generate readme_config = Inr readme_settings \<and>
   descriptor_rules deny readme_settings =
     [''Read|Write|Edit(.env*)'', ''Bash(rm -rf *)'', ''Bash(git push --force*)''] \<and>
   map Inr (descriptor_rules deny readme_settings) =
     map (\<lambda>r. formatFilePermission r ''Read|Write|Edit'') (filesystem_rules deny readme_config) @
     map formatBashPermission (command_rules deny readme_config) \<and>
   descriptor_rules ask readme_settings = [] \<and>
   Option.bind (settings_permissions readme_settings) ask = None"
  using permission_lists_in_declaration_order [OF readme_generates] readme_generates
  by (simp add: descriptor_rules_def readme_settings_def or_empty_def)

text \<open>
  Claim C3. A filesystem deny rule whose path is \<^verbatim>\<open>.env*\<close> appears in the deny list
  of the generated settings as \<^verbatim>\<open>Read|Write|Edit(.env*)\<close>, at the index it has among the
  filesystem deny rules; the command deny rules follow, each as \<^verbatim>\<open>Bash(pattern)\<close> with
  its pattern unchanged, and that is how the formatter renders every command rule.
\<close>

theorem env_rule_rendering:
  assumes "SettingsGenerator_generate config = Inr s"
  shows "length (descriptor_rules deny s) =
           length (filesystem_rules deny config) + length (command_rules deny config) \<and>
         (\<forall>i < length (filesystem_rules deny config).
            path (filesystem_rules deny config ! i) = Some ''.env*'' \<longrightarrow>
            descriptor_rules deny s ! i = ''Read|Write|Edit(.env*)'') \<and>
         (\<forall>j < length (command_rules deny config).
            \<exists>g. pattern (command_rules deny config ! j) = Some g \<and>
                descriptor_rules deny s ! (length (filesystem_rules deny config) + j) =
                  ''Bash('' @ g @ '')'') \<and>
         (\<forall>r g. pattern r = Some g \<and> g \<noteq> [] \<longrightarrow>
            formatBashPermission r = Inr (''Bash('' @ g @ '')''))"
proof -
  let ?ys = "descriptor_rules deny s"
  let ?fs = "filesystem_rules deny config"
  let ?cs = "command_rules deny config"
  let ?f = "\<lambda>r. formatFilePermission r ''Read|Write|Edit''"
  from descriptor_rules_Inr [OF assms]
  have eq: "map Inr ?ys = map ?f ?fs @ map formatBashPermission ?cs"
    by simp
  from arg_cong [OF eq, of length]
  have len: "length ?ys = length ?fs + length ?cs"
    by simp
  have at: "Inr (?ys ! k) = (map ?f ?fs @ map formatBashPermission ?cs) ! k"
    if "k < length ?ys" for k
    using that arg_cong [OF eq, of "\<lambda>xs. xs ! k"] by simp
  have fs: "?ys ! i = ''Read|Write|Edit(.env*)''"
    if "i < length ?fs" and "path (?fs ! i) = Some ''.env*''" for i
  proof -
    from that(1) len have "i < length ?ys" by simp
    from at [OF this] that(1) have "Inr (?ys ! i) = ?f (?fs ! i)"
      by (simp add: nth_append)
    with that(2) show ?thesis
      by (simp add: formatFilePermission_def truthy_string_def)
  qed
  have cs: "\<exists>g. pattern (?cs ! j) = Some g \<and> ?ys ! (length ?fs + j) = ''Bash('' @ g @ '')''"
    if "j < length ?cs" for j
  proof -
    from that len have "length ?fs + j < length ?ys" by simp
    from at [OF this] that
    have "formatBashPermission (?cs ! j) = Inr (?ys ! (length ?fs + j))"
      by (simp add: nth_append)
    then show ?thesis
      by (auto simp: formatBashPermission_Inr)
  qed
  have fmt: "formatBashPermission r = Inr (''Bash('' @ g @ '')'')"
    if "pattern r = Some g \<and> g \<noteq> []" for r g
    using that by (simp add: formatBashPermission_Inr)
  from len fs cs fmt show ?thesis by blast
qed

theorem env_rule_rendering_witness:
  "SettingsGenerator_generate readme_config = Inr readme_settings \<and>
   path (filesystem_rules deny readme_config ! 0) = Some ''.env*'' \<and>
   descriptor_rules deny readme_settings ! 0 = ''Read|Write|Edit(.env*)'' \<and>
   pattern (command_rules deny readme_config ! 1) = Some ''git push --force*'' \<and>
   descriptor_rules deny readme_settings ! 2 = ''Bash(git push --force*)''"
  using env_rule_rendering [OF readme_generates] readme_generates
  by (simp add: descriptor_rules_def readme_settings_def or_empty_def filesystem_rules_def
        command_rules_def readme_config_def minimal_config_def)

text \<open>
  Claim C4, as stated, fails: a gate whose \<^verbatim>\<open>trigger.tool\<close> is present but is the empty
  string, with a command pattern beside it, gets the matcher \<^verbatim>\<open>Bash\<close>, not its tool
  name.
\<close>

theorem gate_matcher_presence_counterexample:
  "tool (trigger empty_tool_gate) = Some [] \<and>
   command_pattern (trigger empty_tool_gate) = Some ''git push'' \<and>
   gate_matcher empty_tool_gate = ''Bash'' \<and>
   SettingsGenerator_generate gates_config = Inr gates_settings \<and>
   map (map matcher \<circ> snd) (or_empty (settings_hooks gates_settings)) =
     [[''Bash'', ''Edit|Write'', ''Bash'']]"
  using gates_generates
  by (simp add: empty_tool_gate_def gate_matcher_def truthy_string_def gates_settings_def
        or_empty_def)

text \<open>
  Claim C4, amended. The tests of the source are truthiness tests. For every gate of a
  document whose settings are generated, the binding at the gate's index has as matcher
  the tool name when \<^verbatim>\<open>trigger.tool\<close> is a non-empty string; otherwise \<^verbatim>\<open>Bash\<close> when
  \<^verbatim>\<open>command_pattern\<close> is a non-empty string; otherwise \<^verbatim>\<open>Edit|Write\<close> when
  \<^verbatim>\<open>path_pattern\<close> is a non-empty string. All bindings are under the one event
  \<^verbatim>\<open>PreToolUse\<close>, in the order of the gates.
\<close>

theorem gate_matcher_precedence:
  assumes "SettingsGenerator_generate config = Inr s"
    and "approval_gates config = Some gs"
    and "i < length gs"
  shows "\<exists>bs. settings_hooks s = Some [(''PreToolUse'', bs)] \<and> length bs = length gs \<and>
           hookEvent (gs ! i) = ''PreToolUse'' \<and>
           (\<forall>n. tool (trigger (gs ! i)) = Some n \<and> n \<noteq> [] \<longrightarrow> matcher (bs ! i) = n) \<and>
           ((tool (trigger (gs ! i)) = None \<or> tool (trigger (gs ! i)) = Some []) \<and>
            (\<exists>c. command_pattern (trigger (gs ! i)) = Some c \<and> c \<noteq> []) \<longrightarrow>
              matcher (bs ! i) = ''Bash'') \<and>
           ((tool (trigger (gs ! i)) = None \<or> tool (trigger (gs ! i)) = Some []) \<and>
            (command_pattern (trigger (gs ! i)) = None \<or>
             command_pattern (trigger (gs ! i)) = Some []) \<and>
            (\<exists>p. path_pattern (trigger (gs ! i)) = Some p \<and> p \<noteq> []) \<longrightarrow>
              matcher (bs ! i) = ''Edit|Write'')"
proof -
  from assms(3) have ne: "gs \<noteq> []" by auto
  with generate_hooks [OF assms(1)] assms(2)
  have hs: "settings_hooks s = Some [(''PreToolUse'', map gate_binding gs)]"
    by simp
  from assms(3) have m: "matcher (map gate_binding gs ! i) = gate_matcher (gs ! i)"
    by (simp add: gate_binding_def)
  have "(\<forall>n. tool (trigger (gs ! i)) = Some n \<and> n \<noteq> [] \<longrightarrow> gate_matcher (gs ! i) = n) \<and>
           ((tool (trigger (gs ! i)) = None \<or> tool (trigger (gs ! i)) = Some []) \<and>
            (\<exists>c. command_pattern (trigger (gs ! i)) = Some c \<and> c \<noteq> []) \<longrightarrow>
              gate_matcher (gs ! i) = ''Bash'') \<and>
           ((tool (trigger (gs ! i)) = None \<or> tool (trigger (gs ! i)) = Some []) \<and>
            (command_pattern (trigger (gs ! i)) = None \<or>
             command_pattern (trigger (gs ! i)) = Some []) \<and>
            (\<exists>p. path_pattern (trigger (gs ! i)) = Some p \<and> p \<noteq> []) \<longrightarrow>
              gate_matcher (gs ! i) = ''Edit|Write'')"
    by (auto simp: gate_matcher_def truthy_string_def)
  with hs m hookEvent_PreToolUse [of "gs ! i"] show ?thesis
    by simp
qed

theorem gate_matcher_precedence_witness:
  "SettingsGenerator_generate gates_config = Inr gates_settings \<and>
   approval_gates gates_config = Some [tool_gate, path_gate, empty_tool_gate] \<and>
   tool (trigger tool_gate) = Some ''Bash'' \<and>
   command_pattern (trigger tool_gate) = Some ''rm *'' \<and>
   (\<exists>bs. settings_hooks gates_settings = Some [(''PreToolUse'', bs)] \<and> length bs = 3 \<and>
         matcher (bs ! 0) = ''Bash'')"
proof -
  have gs: "approval_gates gates_config = Some [tool_gate, path_gate, empty_tool_gate]"
    by (simp add: gates_config_def minimal_config_def)
  have i: "0 < length [tool_gate, path_gate, empty_tool_gate]" by simp
  have t: "tool (trigger tool_gate) = Some ''Bash''"
          "command_pattern (trigger tool_gate) = Some ''rm *''"
    by (simp_all add: tool_gate_def)
  from gate_matcher_precedence [OF gates_generates gs i] t gs gates_generates
  show ?thesis by (auto simp: numeral_3_eq_3)
qed

text \<open>
  Claim C5, as stated, fails in its second half: a filesystem rule that carries a path,
  the empty string, is refused with the same error as a rule without one.
\<close>

theorem empty_path_counterexample:
  "filesystem_rules deny empty_path_config = [\<lparr>path = Some [], pattern = None, reason = None\<rparr>] \<and>
   all_command_rules empty_path_config = [] \<and>
   SettingsGenerator_generate empty_path_config =
     Inl ''Filesystem permission rule must have a path''"
  using empty_path_fails
  by (simp add: filesystem_rules_def all_command_rules_def command_rules_def or_empty_def
        empty_path_config_def minimal_config_def)

text \<open>
  Claim C5, amended. The formatter of a filesystem rule throws its error exactly when the
  rule's path is absent or empty, the formatter of a command rule exactly when the rule's
  pattern is absent or empty. Generating the settings of a parsed document succeeds
  exactly when every filesystem rule has a non-empty path and every command rule a
  non-empty pattern; otherwise it throws one of the two messages, and nothing else.
\<close>

theorem rule_format_errors:
  "(formatFilePermission r tools = Inl ''Filesystem permission rule must have a path'' \<longleftrightarrow>
      path r = None \<or> path r = Some []) \<and>
   (formatBashPermission r = Inl ''Command permission rule must have a pattern'' \<longleftrightarrow>
      pattern r = None \<or> pattern r = Some []) \<and>
   ((\<exists>s. SettingsGenerator_generate config = Inr s) \<longleftrightarrow>
      (\<forall>r \<in> set (all_filesystem_rules config). \<exists>g. path r = Some g \<and> g \<noteq> []) \<and>
      (\<forall>r \<in> set (all_command_rules config). \<exists>g. pattern r = Some g \<and> g \<noteq> [])) \<and>
   (\<forall>e. SettingsGenerator_generate config = Inl e \<longrightarrow>
      e = ''Filesystem permission rule must have a path'' \<or>
      e = ''Command permission rule must have a pattern'')"
proof (intro conjI allI impI)
  show "formatFilePermission r tools = Inl ''Filesystem permission rule must have a path'' \<longleftrightarrow>
      path r = None \<or> path r = Some []"
    by (simp add: formatFilePermission_Inl)
next
  show "formatBashPermission r = Inl ''Command permission rule must have a pattern'' \<longleftrightarrow>
      pattern r = None \<or> pattern r = Some []"
    by (simp add: formatBashPermission_Inl)
next
  show "(\<exists>s. SettingsGenerator_generate config = Inr s) \<longleftrightarrow>
      (\<forall>r \<in> set (all_filesystem_rules config). \<exists>g. path r = Some g \<and> g \<noteq> []) \<and>
      (\<forall>r \<in> set (all_command_rules config). \<exists>g. pattern r = Some g \<and> g \<noteq> [])"
    by (rule generate_succeeds_iff)
next
  fix e assume "SettingsGenerator_generate config = Inl e"
  from generatePermissions_Inl [OF generate_Inl [OF this]]
  show "e = ''Filesystem permission rule must have a path'' \<or>
      e = ''Command permission rule must have a pattern''"
    by (auto simp: formatFilePermission_Inl formatBashPermission_Inl)
qed

theorem rule_format_errors_witness:
  "(\<exists>s. SettingsGenerator_generate readme_config = Inr s) \<and>
   path (hd (all_filesystem_rules no_path_config)) = None \<and>
   SettingsGenerator_generate no_path_config =
     Inl ''Filesystem permission rule must have a path'' \<and>
   \<not> (\<exists>s. SettingsGenerator_generate no_path_config = Inr s)"
proof -
  have ok: "(\<forall>r \<in> set (all_filesystem_rules readme_config). \<exists>g. path r = Some g \<and> g \<noteq> []) \<and>
      (\<forall>r \<in> set (all_command_rules readme_config). \<exists>g. pattern r = Some g \<and> g \<noteq> [])"
    by (simp add: all_filesystem_rules_def all_command_rules_def filesystem_rules_def
          command_rules_def or_empty_def readme_config_def minimal_config_def)
  have bad: "path (hd (all_filesystem_rules no_path_config)) = None"
    by (simp add: all_filesystem_rules_def filesystem_rules_def or_empty_def
          no_path_config_def minimal_config_def)
  from rule_format_errors [of _ _ readme_config] ok
  have "\<exists>s. SettingsGenerator_generate readme_config = Inr s" by blast
  with bad no_path_fails rule_format_errors [of _ _ no_path_config] show ?thesis by simp
qed

text \<open>
  Claim C6. When the loaded document violates the schema, parsing fails with a report
  that has one bullet line per issue of the schema library; the paths of the issues are
  exactly the places of the document's violations, so that N violations give at least N
  bullet lines; and every violation has, on a line of its own, a bullet line made of its
  path, the elements joined by dots, a colon and a message.
\<close>

theorem validation_reports_every_violation:
  assumes "yaml_load ps content = Inr doc"
    and "violation GovernanceSchema doc p"
  shows "\<exists>issues.
           parseString ps content source =
             Inl (formatValidationError
                    \<lparr>errors = Some issues, message = error_text ps issues\<rparr> source) \<and>
           filter (prefix ''  - '')
             (validation_lines \<lparr>errors = Some issues, message = error_text ps issues\<rparr> source) =
             map issue_line issues \<and>
           set (map issue_path issues) = {q. violation GovernanceSchema doc q} \<and>
           card {q. violation GovernanceSchema doc q} \<le> length issues \<and>
           (\<forall>q. violation GovernanceSchema doc q \<longrightarrow>
              (\<exists>e \<in> set issues.
                 issue_path e = q \<and>
                 sublist (''\<newline>  - '' @ join ''.'' (map to_string q) @ '': '' @
                          issue_message e)
                   (formatValidationError
                      \<lparr>errors = Some issues, message = error_text ps issues\<rparr> source)))"
proof -
  define issues where "issues = check (error_map ps) GovernanceSchema [] doc"
  let ?error = "\<lparr>errors = Some issues, message = error_text ps issues\<rparr>"
  have paths: "set (map issue_path issues) = {q. violation GovernanceSchema doc q}"
    using check_paths [of "error_map ps" GovernanceSchema "[]" doc]
    by (simp add: issues_def)
  with assms(2) have "issues \<noteq> []" by auto
  with assms(1) have fails: "parseString ps content source =
      Inl (formatValidationError ?error source)"
    by (simp add: parse_fails issues_def)
  have bullets: "filter (prefix ''  - '') (validation_lines ?error source) =
      map issue_line issues"
    using bullet_lines [of issues] by (simp add: validation_lines_def)
  have "card (set (map issue_path issues)) \<le> length (map issue_path issues)"
    by (rule card_length)
  with paths have count: "card {q. violation GovernanceSchema doc q} \<le> length issues"
    by simp
  have line: "\<exists>e \<in> set issues. issue_path e = q \<and>
      sublist (''\<newline>  - '' @ join ''.'' (map to_string q) @ '': '' @ issue_message e)
        (formatValidationError ?error source)"
    if "violation GovernanceSchema doc q" for q
  proof -
    from that paths have "q \<in> issue_path ` set issues" by simp
    then obtain e where e: "e \<in> set issues" "issue_path e = q"
      by auto
    have "errors ?error = Some issues" by simp
    from report_holds_bullet [OF this e(1), of source] e(2)
    have "sublist (''\<newline>  - '' @ join ''.'' (map to_string q) @ '': '' @ issue_message e)
        (formatValidationError ?error source)"
      by (simp add: issue_line_def)
    with e show ?thesis by blast
  qed
  from fails bullets paths count line show ?thesis by blast
qed

theorem validation_reports_every_violation_witness:
  "yaml_load (tree_parsers bad_doc) ''project: 7'' = Inr (Some bad_doc) \<and>
   violation GovernanceSchema (Some bad_doc) [Str ''version''] \<and>
   violation GovernanceSchema (Some bad_doc)
     [Str ''approval_gates'', Num 0, Str ''action'', Str ''timeout''] \<and>
   (\<exists>issues.
      parseString (tree_parsers bad_doc) ''project: 7'' ''governance.yaml'' =
        Inl (formatValidationError
               \<lparr>errors = Some issues, message = error_text (tree_parsers bad_doc) issues\<rparr>
               ''governance.yaml'') \<and>
      length issues = 4) \<and>
   parseString (tree_parsers bad_doc) ''project: 7'' ''governance.yaml'' =
     Inl (''Validation errors in governance.yaml:\<newline>'' @
          ''  - version: Required\<newline>'' @
          ''  - project: Expected string, received number\<newline>'' @
          ''  - approval_gates.0.action.type: Invalid enum value. '' @
          ''Expected 'command' | 'prompt' | 'agent', received 'shell'\<newline>'' @
          ''    Allowed values: command, prompt, agent\<newline>'' @
          ''  - approval_gates.0.action.timeout: Expected number, received string'')"
proof -
  have y: "yaml_load (tree_parsers bad_doc) ''project: 7'' = Inr (Some bad_doc)"
    by (simp add: tree_parsers_def)
  have v: "violation GovernanceSchema (Some bad_doc) [Str ''version'']"
    using bad_violations by blast
  have four: "length (check default_error_map GovernanceSchema [] (Some bad_doc)) = 4"
    unfolding bad_issues by simp
  have "\<exists>issues.
      parseString (tree_parsers bad_doc) ''project: 7'' ''governance.yaml'' =
        Inl (formatValidationError
               \<lparr>errors = Some issues, message = error_text (tree_parsers bad_doc) issues\<rparr>
               ''governance.yaml'') \<and>
      length issues = 4"
    using validation_reports_every_violation [OF y v, of "''governance.yaml''"] four
    by (auto simp: parseString_def GovernanceSchema_parse_def tree_parsers_def Let_def
          split: if_splits)
  with y bad_violations bad_report [of "''project: 7''"] show ?thesis by blast
qed




text \<open>
  Claim C8. For a document with only \<^verbatim>\<open>version\<close> and \<^verbatim>\<open>project\<close> the generated
  settings have none of the keys \<^verbatim>\<open>permissions\<close>, \<^verbatim>\<open>sandbox\<close>, \<^verbatim>\<open>hooks\<close>; the data of
  the workflow has no protected branch, no secret pattern, no contractor member and no
  compliance control; and the artifact list is produced whenever the hook generator and
  the workflow template return.
\<close>

theorem minimal_document_compiles:
  "SettingsGenerator_generate (minimal_config v p) =
     Inr \<lparr>settings_permissions = None, settings_sandbox = None, settings_hooks = None,
          defaultMode = None\<rparr> \<and>
   workflow_data (minimal_config v p) =
     \<lparr>projectName = p, protectedBranches = [], secretPatterns = [], hasTerraform = False,
      dynamodbBillingMode = None, contractorMembers = [], complianceControls = []\<rparr> \<and>
   (\<forall>hs content.
      hooks_generate ext (minimal_config v p) = Inr hs \<and>
      workflow_template ext (workflow_data (minimal_config v p)) = Inr content \<longrightarrow>
      generateFiles ext (minimal_config v p) baseDir =
        Inr ([\<lparr>file_path = ''.claude/settings.json'',
                file_content =
                  json_stringify ext
                    \<lparr>settings_permissions = None, settings_sandbox = None,
                     settings_hooks = None, defaultMode = None\<rparr>,
                executable = None\<rparr>] @
             map hook_file hs @
             [\<lparr>file_path = ''.github/workflows/governance.yml'', file_content = content,
               executable = None\<rparr>,
              \<lparr>file_path = ''GOVERNANCE.md'',
               file_content = generateDocumentation (minimal_config v p),
               executable = None\<rparr>]))"
proof -
  have settings: "SettingsGenerator_generate (minimal_config v p) =
     Inr \<lparr>settings_permissions = None, settings_sandbox = None, settings_hooks = None,
          defaultMode = None\<rparr>"
    by (simp add: SettingsGenerator_generate_def and_then_def generateHooksConfig_def
          minimal_config_def)
  have data: "workflow_data (minimal_config v p) =
     \<lparr>projectName = p, protectedBranches = [], secretPatterns = [], hasTerraform = False,
      dynamodbBillingMode = None, contractorMembers = [], complianceControls = []\<rparr>"
    by (simp add: workflow_data_def getProtectedBranches_def checkTerraformUsage_def
          getContractorMembers_def getComplianceControls_def or_empty_def minimal_config_def)
  have files: "generateFiles ext (minimal_config v p) baseDir =
        Inr ([\<lparr>file_path = ''.claude/settings.json'',
                file_content =
                  json_stringify ext
                    \<lparr>settings_permissions = None, settings_sandbox = None,
                     settings_hooks = None, defaultMode = None\<rparr>,
                executable = None\<rparr>] @
             map hook_file hs @
             [\<lparr>file_path = ''.github/workflows/governance.yml'', file_content = content,
               executable = None\<rparr>,
              \<lparr>file_path = ''GOVERNANCE.md'',
               file_content = generateDocumentation (minimal_config v p),
               executable = None\<rparr>])"
    if "hooks_generate ext (minimal_config v p) = Inr hs \<and>
        workflow_template ext (workflow_data (minimal_config v p)) = Inr content"
    for hs content
    using that settings
    by (simp add: generateFiles_def WorkflowGenerator_generate_def and_then_def)
  from settings data files show ?thesis by blast
qed

theorem minimal_document_compiles_witness:
  "hooks_generate stub_externals (minimal_config ''1.0'' ''my-app'') = Inr [] \<and>
   workflow_template stub_externals (workflow_data (minimal_config ''1.0'' ''my-app'')) =
     Inr ''name: my-app'' \<and>
   generateFiles stub_externals (minimal_config ''1.0'' ''my-app'') ''out'' =
     Inr [\<lparr>file_path = ''.claude/settings.json'', file_content = ''{}'', executable = None\<rparr>,
          \<lparr>file_path = ''.github/workflows/governance.yml'', file_content = ''name: my-app'',
           executable = None\<rparr>,
          \<lparr>file_path = ''GOVERNANCE.md'',
           file_content = generateDocumentation (minimal_config ''1.0'' ''my-app''),
           executable = None\<rparr>]"
proof -
  have h: "hooks_generate stub_externals (minimal_config ''1.0'' ''my-app'') = Inr []"
    by (simp add: stub_externals_def)
  have d: "workflow_data (minimal_config ''1.0'' ''my-app'') =
     \<lparr>projectName = ''my-app'', protectedBranches = [], secretPatterns = [],
      hasTerraform = False, dynamodbBillingMode = None, contractorMembers = [],
      complianceControls = []\<rparr>"
    using minimal_document_compiles [of "''1.0''" "''my-app''"] by blast
  have w: "workflow_template stub_externals (workflow_data (minimal_config ''1.0'' ''my-app'')) =
     Inr ''name: my-app''"
    by (simp add: d) (simp add: stub_externals_def)
  have j: "json_stringify stub_externals x = ''{}''" for x
    by (simp add: stub_externals_def)
  from minimal_document_compiles [of "''1.0''" "''my-app''" stub_externals "''out''"] h w
  have "generateFiles stub_externals (minimal_config ''1.0'' ''my-app'') ''out'' =
        Inr ([\<lparr>file_path = ''.claude/settings.json'',
                file_content =
                  json_stringify stub_externals
                    \<lparr>settings_permissions = None, settings_sandbox = None,
                     settings_hooks = None, defaultMode = None\<rparr>,
                executable = None\<rparr>] @
             map hook_file [] @
             [\<lparr>file_path = ''.github/workflows/governance.yml'', file_content = ''name: my-app'',
               executable = None\<rparr>,
              \<lparr>file_path = ''GOVERNANCE.md'',
               file_content = generateDocumentation (minimal_config ''1.0'' ''my-app''),
               executable = None\<rparr>])"
    by blast
  with h w j show ?thesis by simp
qed

text \<open>
  Claim C9. The flag \<^verbatim>\<open>hasTerraform\<close> of the workflow data is true exactly when the
  document has an approval gate whose \<^verbatim>\<open>path_pattern\<close> contains \<^verbatim>\<open>.tf\<close> or
  \<^verbatim>\<open>infrastructure/\<close>; it is false for a document without gates; and the workflow
  generator throws only what the template throws on the extracted data.
\<close>

theorem terraform_flag_iff_infra_gate:
  "(hasTerraform (workflow_data config) \<longleftrightarrow>
      (\<exists>gs. approval_gates config = Some gs \<and>
         (\<exists>g \<in> set gs. \<exists>p. path_pattern (trigger g) = Some p \<and>
            (sublist ''.tf'' p \<or> sublist ''infrastructure/'' p)))) \<and>
   (approval_gates config = None \<or> approval_gates config = Some [] \<longrightarrow>
      \<not> hasTerraform (workflow_data config)) \<and>
   (\<forall>e. WorkflowGenerator_generate template config = Inl e \<longrightarrow>
      template (workflow_data config) = Inl e)"
  by (auto simp: workflow_data_def checkTerraformUsage_def gates_loop_iff infra_gate_iff
        WorkflowGenerator_generate_def and_then_Inl split: option.splits)

theorem terraform_flag_iff_infra_gate_witness:
  "approval_gates gates_config = Some [tool_gate, path_gate, empty_tool_gate] \<and>
   path_pattern (trigger path_gate) = Some ''infrastructure/**'' \<and>
   hasTerraform (workflow_data gates_config) \<and>
   approval_gates readme_config \<noteq> None \<and>
   \<not> hasTerraform (workflow_data readme_config) \<and>
   approval_gates (minimal_config ''1.0'' ''my-app'') = None \<and>
   \<not> hasTerraform (workflow_data (minimal_config ''1.0'' ''my-app''))"
proof -
  have gs: "approval_gates gates_config = Some [tool_gate, path_gate, empty_tool_gate]"
    by (simp add: gates_config_def minimal_config_def)
  have pg: "path_pattern (trigger path_gate) = Some ''infrastructure/**''"
    by (simp add: path_gate_def)
  from gs pg infrastructure_pattern
  have "\<exists>gs. approval_gates gates_config = Some gs \<and>
         (\<exists>g \<in> set gs. \<exists>p. path_pattern (trigger g) = Some p \<and>
            (sublist ''.tf'' p \<or> sublist ''infrastructure/'' p))"
    by auto
  with terraform_flag_iff_infra_gate [of gates_config]
  have yes: "hasTerraform (workflow_data gates_config)" by blast
  have none: "approval_gates (minimal_config ''1.0'' ''my-app'') = None"
    by (simp add: minimal_config_def)
  with terraform_flag_iff_infra_gate [of "minimal_config ''1.0'' ''my-app''"]
  have no: "\<not> hasTerraform (workflow_data (minimal_config ''1.0'' ''my-app''))" by blast
  have rd: "approval_gates readme_config \<noteq> None \<and> \<not> hasTerraform (workflow_data readme_config)"
    by (simp add: readme_config_def minimal_config_def workflow_data_def
          checkTerraformUsage_def infra_gate_def)
  from gs pg yes none no rd show ?thesis by simp
qed

text \<open>
  Claim C10. The binding of a gate carries \<^verbatim>\<open>command\<close>, \<^verbatim>\<open>prompt\<close> and \<^verbatim>\<open>timeout\<close> by
  truthiness: a field is in the binding exactly when the action gives it a non-empty
  string, or a number other than zero; an empty command, an empty prompt or a timeout of
  zero leaves the field out.
\<close>

theorem hook_fields_by_truthiness:
  assumes "SettingsGenerator_generate config = Inr s"
    and "approval_gates config = Some gs"
    and "i < length gs"
  shows "\<exists>bs. settings_hooks s = Some [(''PreToolUse'', bs)] \<and> length bs = length gs \<and>
           hooks (bs ! i) =
             [\<lparr>hook_type = action_type (action (gs ! i)),
               hook_command = (case action_command (action (gs ! i)) of
                                 None \<Rightarrow> None
                               | Some c \<Rightarrow> if c = [] then None else Some c),
               hook_prompt = (case action_prompt (action (gs ! i)) of
                                None \<Rightarrow> None
                              | Some q \<Rightarrow> if q = [] then None else Some q),
               hook_timeout = (case action_timeout (action (gs ! i)) of
                                 None \<Rightarrow> None
                               | Some t \<Rightarrow> if t = 0 then None else Some t)\<rparr>]"
proof -
  from assms(3) have "gs \<noteq> []" by auto
  with generate_hooks [OF assms(1)] assms(2)
  have "settings_hooks s = Some [(''PreToolUse'', map gate_binding gs)]"
    by simp
  moreover from assms(3) have "hooks (map gate_binding gs ! i) = [hookConfig (gs ! i)]"
    by (simp add: gate_binding_def)
  ultimately show ?thesis
    by (simp add: hookConfig_def truthy_string_def truthy_number_def)
qed

theorem hook_fields_by_truthiness_witness:
  "SettingsGenerator_generate gates_config = Inr gates_settings \<and>
   approval_gates gates_config = Some [tool_gate, path_gate, empty_tool_gate] \<and>
   action_command (action path_gate) = Some [] \<and>
   action_timeout (action path_gate) = Some 0 \<and>
   (\<exists>bs. settings_hooks gates_settings = Some [(''PreToolUse'', bs)] \<and>
         hooks (bs ! 1) =
           [\<lparr>hook_type = prompt, hook_command = None,
             hook_prompt = Some ''Apply this change?'', hook_timeout = None\<rparr>])"
proof -
  have gs: "approval_gates gates_config = Some [tool_gate, path_gate, empty_tool_gate]"
    by (simp add: gates_config_def minimal_config_def)
  have i: "1 < length [tool_gate, path_gate, empty_tool_gate]" by simp
  have a: "action path_gate =
     \<lparr>action_type = prompt, action_command = Some [],
      action_prompt = Some ''Apply this change?'', action_timeout = Some 0\<rparr>"
    by (simp add: path_gate_def)
  from hook_fields_by_truthiness [OF gates_generates gs i] a gs gates_generates
  show ?thesis by auto
qed

end
